theory Spec2Isabelle
  imports Main
begin

section \<open>JavaScript values\<close>

text \<open>
  Trial payloads, metadata and rows are plain JSON-like JavaScript values. An object is
  an association list of its own enumerable properties in iteration order; numbers are
  integers here (no claim depends on fractions).
\<close>

datatype json =
    JNull
  | JBool bool
  | JNum int
  | JStr string
  | JArr "json list"
  | JObj "(string \<times> json) list"

type_synonym obj = "(string \<times> json) list"

text \<open>JavaScript truthiness, as used by \<^verbatim>\<open>if (x)\<close>, \<^verbatim>\<open>!x\<close> and \<^verbatim>\<open>a || b\<close>.\<close>

fun truthy :: "json \<Rightarrow> bool" where
  "truthy JNull = False"
| "truthy (JBool b) = b"
| "truthy (JNum n) = (n \<noteq> 0)"
| "truthy (JStr s) = (s \<noteq> [])"
| "truthy (JArr xs) = True"
| "truthy (JObj kvs) = True"

text \<open>A property read \<^verbatim>\<open>o.k\<close>; \<open>None\<close> stands for \<^verbatim>\<open>undefined\<close>, which is falsy.\<close>

definition obj_get :: "obj \<Rightarrow> string \<Rightarrow> json option" where
  "obj_get ob k = map_of ob k"

definition truthy_opt :: "json option \<Rightarrow> bool" where
  "truthy_opt v = (case v of None \<Rightarrow> False | Some x \<Rightarrow> truthy x)"

text \<open>Assignment \<^verbatim>\<open>o[k] = v\<close>: an existing key keeps its position, a new key goes last.\<close>

fun obj_set :: "string \<Rightarrow> json \<Rightarrow> obj \<Rightarrow> obj" where
  "obj_set k v [] = [(k, v)]"
| "obj_set k v ((k', v') # rest) =
     (if k' = k then (k, v) # rest else (k', v') # obj_set k v rest)"

text \<open>Object spread \<^verbatim>\<open>{...a, ...b}\<close>: the properties of \<open>b\<close> are assigned over those of \<open>a\<close>.\<close>

definition spread :: "obj \<Rightarrow> obj \<Rightarrow> obj" where
  "spread a b = fold (\<lambda>(k, v). obj_set k v) b a"

text \<open>\<^verbatim>\<open>delete o.k\<close>.\<close>

definition obj_delete :: "string \<Rightarrow> obj \<Rightarrow> obj" where
  "obj_delete k ob = filter (\<lambda>(k', v). k' \<noteq> k) ob"

text \<open>The decimal text of an array index, as JavaScript writes a numeric property key.\<close>

definition digit_char :: "nat \<Rightarrow> char" where
  "digit_char d =
     (if d = 0 then CHR ''0'' else if d = 1 then CHR ''1'' else if d = 2 then CHR ''2''
      else if d = 3 then CHR ''3'' else if d = 4 then CHR ''4'' else if d = 5 then CHR ''5''
      else if d = 6 then CHR ''6'' else if d = 7 then CHR ''7'' else if d = 8 then CHR ''8''
      else CHR ''9'')"

fun string_of_nat :: "nat \<Rightarrow> string" where
  "string_of_nat n =
     (if n < 10 then [digit_char n]
      else string_of_nat (n div 10) @ [digit_char (n mod 10)])"

declare string_of_nat.simps [simp del]

text \<open>\<^verbatim>\<open>s.includes(t)\<close> on strings.\<close>

fun starts_with :: "string \<Rightarrow> string \<Rightarrow> bool" where
  "starts_with s [] = True"
| "starts_with [] (c # t) = False"
| "starts_with (c # s) (d # t) = (c = d \<and> starts_with s t)"

fun str_includes :: "string \<Rightarrow> string \<Rightarrow> bool" where
  "str_includes [] t = (t = [])"
| "str_includes (c # s) t = (starts_with (c # s) t \<or> str_includes s t)"

section \<open>Document-store adapter: flattening before a write\<close>

text \<open>
  \<^verbatim>\<open>value.reduce((acc, val, i) => { acc[i] = val; return acc; }, {})\<close>: the elements of
  the array become the properties \<open>0, 1, \<dots>\<close> of a fresh object. Each element is stored
  as it is.
\<close>

fun reduce_to_indexed :: "nat \<Rightarrow> json list \<Rightarrow> obj" where
  "reduce_to_indexed i [] = []"
| "reduce_to_indexed i (v # vs) = (string_of_nat i, v) # reduce_to_indexed (Suc i) vs"

text \<open>
  \<^verbatim>\<open>flattenNestedArrays\<close> (firebase.ts): a shallow copy of the object in which every
  property holding an array is replaced by the indexed object above, every property
  holding a non-null object is replaced by its own flattening, and every other property
  is kept.
\<close>

fun flattenNestedArrays :: "obj \<Rightarrow> obj" where
  "flattenNestedArrays [] = []"
| "flattenNestedArrays ((k, JArr vs) # rest) =
     (k, JObj (reduce_to_indexed 0 vs)) # flattenNestedArrays rest"
| "flattenNestedArrays ((k, JObj ob) # rest) =
     (k, JObj (flattenNestedArrays ob)) # flattenNestedArrays rest"
| "flattenNestedArrays ((k, v) # rest) = (k, v) # flattenNestedArrays rest"

section \<open>Errors, console and outcomes\<close>

text \<open>
  A value that can be thrown or reported by a backend client: whether it is an instance of
  \<^verbatim>\<open>Error\<close>, its \<^verbatim>\<open>code\<close> and its \<^verbatim>\<open>message\<close>. \<^verbatim>\<open>new Error(m)\<close> has no code.
\<close>

datatype js_error = JsError (instance_of_Error: bool) (error_code: string) (error_message: string)

definition new_Error :: "string \<Rightarrow> js_error" where
  "new_Error m = JsError True [] m"

text \<open>\<^verbatim>\<open>error instanceof Error ? error.message : String(error)\<close>.\<close>

definition describe_error :: "js_error \<Rightarrow> string" where
  "describe_error e = (if instance_of_Error e then error_message e else ''[object Object]'')"

text \<open>
  A line written to the console: its level, its text and the value printed with it. A
  template string is kept as its fixed text, with the interpolated value as the argument.
\<close>

datatype level = LOG | WARN | ERROR

datatype console_arg = NoArg | ErrArg js_error | ObjArg obj | JsonArg "json option" | NumArg nat

datatype console_line = Console level string console_arg

text \<open>An awaited call either returns or throws; the manager it leaves behind comes with it.\<close>

datatype outcome = Returned | Threw js_error

section \<open>Row-store adapter (SupabaseManager)\<close>

subsection \<open>The remote table as seen by the manager\<close>

text \<open>
  The backend client is an external collaborator. Each of its three calls answers with
  the \<^verbatim>\<open>{ data, error }\<close> pair of the client library: \<^verbatim>\<open>insert(..).select()\<close> with the
  inserted rows, \<^verbatim>\<open>select('trials').eq('id', ..).single()\<close> with the \<^verbatim>\<open>trials\<close> column of
  the row, \<^verbatim>\<open>update(..).eq('id', ..)\<close> with an error or none. The \<^verbatim>\<open>trials\<close> column is a
  JSON array or absent, so \<open>sel_trials = None\<close> stands for a null row or a null column.
\<close>

datatype insert_reply = InsertReply (ins_data: "obj list option") (ins_error: "js_error option")

datatype select_reply = SelectReply (sel_trials: "json list option") (sel_error: "js_error option")

text \<open>
  Every remote call the manager issues, with the table, the payload, the row identifier
  it filters on, and the answer it got, in the order of issue.
\<close>

datatype event =
    Insert string obj insert_reply
  | Update string obj "json option" "js_error option"
  | SelectTrials string "json option" select_reply

text \<open>
  The remote side is any deterministic environment: its answers (and the wall clock read
  by \<^verbatim>\<open>new Date().toISOString()\<close>) may depend on everything that happened before.
\<close>

record remote =
  on_insert :: "event list \<Rightarrow> insert_reply"
  on_select :: "event list \<Rightarrow> select_reply"
  on_update :: "event list \<Rightarrow> js_error option"
  now :: "event list \<Rightarrow> string"

subsection \<open>The manager\<close>

text \<open>
  The fields of the class, followed by two observation fields that the class does not
  have: the remote calls issued so far and the lines written to the console.
\<close>

record manager =
  tableName :: string
  metadata :: obj
  rowId :: "json option"
  numberOfOperations :: nat
  initialized :: bool
  pendingTrials :: "obj list"
  calls :: "event list"
  console :: "console_line list"

definition say :: "level \<Rightarrow> string \<Rightarrow> console_arg \<Rightarrow> manager \<Rightarrow> manager" where
  "say l msg a s = s\<lparr>console := console s @ [Console l msg a]\<rparr>"

text \<open>
  The constructor. \<open>date\<close> and \<open>time\<close> are the two halves of the ISO timestamp read by
  the base class; \<open>None\<close> options are the absent ones.
\<close>

record SupabaseManagerOptions =
  opt_metadata :: "obj option"
  opt_tableName :: "string option"
  opt_rowId :: "string option"

definition DataManager_metadata :: "string \<Rightarrow> string \<Rightarrow> obj option \<Rightarrow> obj" where
  "DataManager_metadata date time md =
     spread [(''date'', JStr date), (''time'', JStr time)] (case md of None \<Rightarrow> [] | Some m \<Rightarrow> m)"

definition SupabaseManager :: "string \<Rightarrow> string \<Rightarrow> SupabaseManagerOptions \<Rightarrow> manager" where
  "SupabaseManager date time options =
     (let rid = map_option JStr (opt_rowId options);
          s = \<lparr> tableName = (case opt_tableName options of
                                None \<Rightarrow> ''experiments''
                              | Some t \<Rightarrow> if t = [] then ''experiments'' else t),
                metadata = DataManager_metadata date time (opt_metadata options),
                rowId = rid,
                numberOfOperations = 0,
                initialized = False,
                pendingTrials = [],
                calls = [],
                console = [] \<rparr>
      in if truthy_opt rid
         then say LOG ''[SupabaseManager] Using provided row ID:'' (JsonArg rid)
                (s\<lparr>initialized := True\<rparr>)
         else s)"

text \<open>\<^verbatim>\<open>handleRlsError\<close>: prints the remediation banner (shortened here) and nothing else.\<close>

definition handleRlsError :: "js_error \<Rightarrow> manager \<Rightarrow> manager" where
  "handleRlsError e s =
     (if error_code e = ''42501'' \<and>
         str_includes (error_message e) ''violates row-level security policy''
      then say ERROR ''ROW LEVEL SECURITY POLICY VIOLATION DETECTED'' NoArg s
      else s)"

text \<open>The \<^verbatim>\<open>catch\<close> block of \<^verbatim>\<open>initializeExperiment\<close>: log, then throw the wrapped error.\<close>

definition init_catch :: "js_error \<Rightarrow> manager \<Rightarrow> outcome \<times> manager" where
  "init_catch e s =
     (Threw (new_Error (''Failed to initialize experiment data: '' @ describe_error e)),
      say ERROR ''[SupabaseManager] Error initializing data:'' (ErrArg e) s)"

text \<open>
  The branch of \<^verbatim>\<open>initializeExperiment\<close> taken when the manager is initialized and has a
  row identifier: one \<^verbatim>\<open>update\<close> of the row with
  \<^verbatim>\<open>{...this.metadata, ...additionalData, updated_at}\<close>.
\<close>

definition update_payload :: "remote \<Rightarrow> obj \<Rightarrow> manager \<Rightarrow> obj" where
  "update_payload env additionalData s =
     obj_set ''updated_at'' (JStr (now env (calls s))) (spread (spread [] (metadata s)) additionalData)"

definition update_existing :: "remote \<Rightarrow> obj \<Rightarrow> manager \<Rightarrow> outcome \<times> manager" where
  "update_existing env additionalData s =
     (let s1 = say LOG ''[SupabaseManager] Updating existing row with ID:'' (JsonArg (rowId s)) s;
          err = on_update env (calls s1);
          s2 = s1\<lparr>calls := calls s1 @
                  [Update (tableName s1) (update_payload env additionalData s1) (rowId s1) err]\<rparr>
      in case err of
           Some e \<Rightarrow> init_catch e (handleRlsError e s2)
         | None \<Rightarrow>
             (Returned,
              say LOG ''[SupabaseManager] Data successfully updated!'' NoArg
                (s2\<lparr>numberOfOperations := numberOfOperations s2 + 1\<rparr>)))"

text \<open>The record a fresh row is created with: \<^verbatim>\<open>{...this.metadata, trials: [], ...additionalData}\<close>.\<close>

definition insert_payload :: "obj \<Rightarrow> manager \<Rightarrow> obj" where
  "insert_payload additionalData s =
     spread (obj_set ''trials'' (JArr []) (spread [] (metadata s))) additionalData"

text \<open>\<^verbatim>\<open>data && data.length > 0 && data[0].id\<close>: the identifier when that is truthy.\<close>

definition returned_id :: "insert_reply \<Rightarrow> json option" where
  "returned_id r =
     (case ins_data r of
        None \<Rightarrow> None
      | Some [] \<Rightarrow> None
      | Some (row # rows) \<Rightarrow>
          (case obj_get row ''id'' of
             None \<Rightarrow> None
           | Some v \<Rightarrow> if truthy v then Some v else None))"

text \<open>The two remote steps of \<^verbatim>\<open>addTrialData\<close>: the read of the column and the write back.\<close>

definition fetch_trials :: "remote \<Rightarrow> manager \<Rightarrow> select_reply \<times> manager" where
  "fetch_trials env s =
     (let r = on_select env (calls s)
      in (r, s\<lparr>calls := calls s @ [SelectTrials (tableName s) (rowId s) r]\<rparr>))"

definition write_trials :: "remote \<Rightarrow> json list \<Rightarrow> manager \<Rightarrow> js_error option \<times> manager" where
  "write_trials env updatedTrials s =
     (let err = on_update env (calls s);
          payload = [(''trials'', JArr updatedTrials), (''updated_at'', JStr (now env (calls s)))]
      in (err, s\<lparr>calls := calls s @ [Update (tableName s) payload (rowId s) err]\<rparr>))"

text \<open>
  What both recovery branches do before they call \<^verbatim>\<open>initializeExperiment\<close> again:
  \<^verbatim>\<open>this.initialized = false; this.rowId = undefined; this.pendingTrials.push(trialData)\<close>.
\<close>

definition forget_row :: "obj \<Rightarrow> manager \<Rightarrow> manager" where
  "forget_row trialData s =
     (say LOG ''[SupabaseManager] Row not found, attempting to reinitialize...'' NoArg s)
       \<lparr>initialized := False, rowId := None, pendingTrials := pendingTrials s @ [trialData]\<rparr>"


text \<open>
  Three steps of the insert branch of \<^verbatim>\<open>initializeExperiment\<close>: storing the identifier
  the insert returned (\<^verbatim>\<open>this.rowId = data[0].id; this.initialized = true\<close>), taking the
  queue for replay (\<^verbatim>\<open>const trials = [...this.pendingTrials]; this.pendingTrials = []\<close>;
  the copy is the list handed to the loop), and the closing
  \<^verbatim>\<open>this.numberOfOperations++\<close>, which comes after the replay.
\<close>

definition adopt_row :: "json \<Rightarrow> manager \<Rightarrow> manager" where
  "adopt_row rid s =
     say LOG ''[SupabaseManager] Row created with ID:'' (JsonArg (Some rid))
       (s\<lparr>rowId := Some rid, initialized := True\<rparr>)"

definition take_pending :: "manager \<Rightarrow> manager" where
  "take_pending s =
     (say LOG ''[SupabaseManager] Processing pending trials...''
        (NumArg (length (pendingTrials s))) s)
     \<lparr>pendingTrials := []\<rparr>"

definition initialized_ok :: "manager \<Rightarrow> manager" where
  "initialized_ok s =
     say LOG ''[SupabaseManager] Data successfully initialized!'' NoArg
       (s\<lparr>numberOfOperations := numberOfOperations s + 1\<rparr>)"

subsection \<open>initializeExperiment and addTrialData\<close>

text \<open>
  The two methods call each other: \<^verbatim>\<open>initializeExperiment\<close> replays the pending trials
  through \<^verbatim>\<open>addTrialData\<close>, and \<^verbatim>\<open>addTrialData\<close> calls \<^verbatim>\<open>initializeExperiment\<close> again when the
  row has gone. Nothing in the code bounds that exchange, so the model carries a budget
  \<open>n\<close> of re-initialisations; a call that would need more has no result (\<open>None\<close>).
  All other steps are total. Awaited steps run to completion in the order written.

  \<open>after_insert\<close> is the part of \<^verbatim>\<open>initializeExperiment\<close> that runs once the awaited
  \<^verbatim>\<open>insert\<close> has answered; \<open>processPending\<close> is its \<^verbatim>\<open>for (const trial of trials)\<close> loop;
  \<open>addTrialData_catch\<close> is the \<^verbatim>\<open>catch\<close> block of \<^verbatim>\<open>addTrialData\<close>.
\<close>

function (sequential) initializeExperiment :: "nat \<Rightarrow> remote \<Rightarrow> obj \<Rightarrow> manager \<Rightarrow> (outcome \<times> manager) option"
and after_insert :: "nat \<Rightarrow> remote \<Rightarrow> obj \<Rightarrow> insert_reply \<Rightarrow> manager \<Rightarrow> (outcome \<times> manager) option"
and processPending :: "nat \<Rightarrow> remote \<Rightarrow> obj list \<Rightarrow> manager \<Rightarrow> manager option"
and addTrialData :: "nat \<Rightarrow> remote \<Rightarrow> obj \<Rightarrow> manager \<Rightarrow> (outcome \<times> manager) option"
and addTrialData_catch :: "nat \<Rightarrow> remote \<Rightarrow> obj \<Rightarrow> js_error \<Rightarrow> manager \<Rightarrow> (outcome \<times> manager) option"
where
  "initializeExperiment n env additionalData s =
     (if initialized s \<and> truthy_opt (rowId s)
      then Some (update_existing env additionalData s)
      else after_insert n env (insert_payload additionalData s) (on_insert env (calls s)) s)"
| "after_insert n env initialData reply s =
     (let s1 = s\<lparr>calls := calls s @ [Insert (tableName s) initialData reply]\<rparr>
      in case ins_error reply of
           Some e \<Rightarrow> Some (init_catch e (handleRlsError e s1))
         | None \<Rightarrow>
            (case returned_id reply of
               None \<Rightarrow>
                 Some (init_catch (new_Error ''Failed to get row ID from insert operation'')
                        (say ERROR ''[SupabaseManager] No row ID returned from insert operation''
                           NoArg s1))
             | Some rid \<Rightarrow>
                (let s2 = adopt_row rid s1
                 in case (if pendingTrials s2 \<noteq> []
                          then processPending n env (pendingTrials s2) (take_pending s2)
                          else Some s2) of
                      None \<Rightarrow> None
                    | Some s3 \<Rightarrow> Some (Returned, initialized_ok s3))))"
| "processPending n env [] s = Some s"
| "processPending n env (trial # trials) s =
     (case addTrialData n env trial s of
        None \<Rightarrow> None
      | Some (Returned, s1) \<Rightarrow> processPending n env trials s1
      | Some (Threw e, s1) \<Rightarrow>
          processPending n env trials
            (say ERROR ''[SupabaseManager] Error processing pending trial:'' (ErrArg e) s1))"
| "addTrialData n env trialData s =
     (if \<not> initialized s
      then Some (Returned,
                 (say LOG ''[SupabaseManager] Not initialized yet, storing trial for later processing''
                    NoArg s)
                 \<lparr>pendingTrials := pendingTrials s @ [trialData]\<rparr>)
      else if \<not> truthy_opt (rowId s)
      then (case n of
              0 \<Rightarrow> None
            | Suc m \<Rightarrow>
                initializeExperiment m env []
                  ((say LOG ''[SupabaseManager] No row ID available, storing trial for later processing''
                      NoArg s)
                   \<lparr>pendingTrials := pendingTrials s @ [trialData], initialized := False\<rparr>))
      else
        (case fetch_trials env s of
           (r, s1) \<Rightarrow>
             (case sel_error r of
                Some fetchError \<Rightarrow>
                  (let s2 = handleRlsError fetchError
                              (say ERROR ''[SupabaseManager] Error fetching current data:''
                                 (ErrArg fetchError) s1)
                   in if error_code fetchError = ''PGRST116''
                      then (case n of
                              0 \<Rightarrow> None
                            | Suc m \<Rightarrow>
                                (case initializeExperiment m env [] (forget_row trialData s2) of
                                   None \<Rightarrow> None
                                 | Some (Returned, s3) \<Rightarrow> Some (Returned, s3)
                                 | Some (Threw e, s3) \<Rightarrow> addTrialData_catch n env trialData e s3))
                      else addTrialData_catch n env trialData fetchError s2)
              | None \<Rightarrow>
                  (case write_trials env
                          ((case sel_trials r of None \<Rightarrow> [] | Some ts \<Rightarrow> ts) @ [JObj trialData]) s1 of
                     (updateError, s2) \<Rightarrow>
                       (case updateError of
                          Some e \<Rightarrow>
                            addTrialData_catch n env trialData e
                              (handleRlsError e
                                 (say ERROR ''[SupabaseManager] Error updating data:'' (ErrArg e) s2))
                        | None \<Rightarrow>
                            Some (Returned,
                                  say LOG ''[SupabaseManager] Added trial data:'' (ObjArg trialData)
                                    (s2\<lparr>numberOfOperations := numberOfOperations s2 + 1\<rparr>)))))))"
| "addTrialData_catch n env trialData error s =
     (let s1 = say ERROR ''[SupabaseManager] Error storing trial data:'' (ErrArg error) s
      in if instance_of_Error error \<and> str_includes (error_message error) ''not found''
         then (case n of
                 0 \<Rightarrow> None
               | Suc m \<Rightarrow> initializeExperiment m env [] (forget_row trialData s1))
         else Some (Threw (new_Error (''Failed to store trial data: '' @ describe_error error)), s1))"
  by pat_completeness auto

text \<open>
  Each call either uses up one re-initialisation of the budget or moves down the chain
  \<open>initializeExperiment\<close>, \<open>after_insert\<close>, \<open>processPending\<close> (on a shorter list),
  \<open>addTrialData\<close>, \<open>addTrialData_catch\<close>.
\<close>

termination
proof (relation "inv_image (less_than <*lex*> less_than <*lex*> less_than)
      (\<lambda>x. case x of
          Inl (Inl (n, env, a, s)) \<Rightarrow> (n, 4::nat, 0::nat)
        | Inl (Inr (n, env, a, r, s)) \<Rightarrow> (n, 3, 0)
        | Inr (Inl (n, env, ts, s)) \<Rightarrow> (n, 2, length ts)
        | Inr (Inr (Inl (n, env, t, s))) \<Rightarrow> (n, 1, 0)
        | Inr (Inr (Inr (n, env, t, e, s))) \<Rightarrow> (n, 0, 0))", goal_cases)
  case 1
  show ?case
    by (intro wf_inv_image wf_lex_prod wf_less_than)
qed simp_all

declare initializeExperiment.simps [simp del]
declare after_insert.simps [simp del]
declare processPending.simps [simp del]
declare addTrialData.simps [simp del]
declare addTrialData_catch.simps [simp del]

text \<open>
  One round of the replay loop, \<^verbatim>\<open>await this.addTrialData(trial).catch(e => console.error(..))\<close>,
  on a manager that may already have failed to come back.
\<close>

definition attempt :: "nat \<Rightarrow> remote \<Rightarrow> manager option \<Rightarrow> obj \<Rightarrow> manager option" where
  "attempt n env so trial =
     (case so of
        None \<Rightarrow> None
      | Some s \<Rightarrow>
          (case addTrialData n env trial s of
             None \<Rightarrow> None
           | Some (Returned, s1) \<Rightarrow> Some s1
           | Some (Threw e, s1) \<Rightarrow>
               Some (say ERROR ''[SupabaseManager] Error processing pending trial:'' (ErrArg e) s1)))"

text \<open>A caller that awaits \<^verbatim>\<open>addTrialData\<close> for each trial of a list in turn.\<close>

fun addTrialData_seq ::
  "nat \<Rightarrow> remote \<Rightarrow> obj list \<Rightarrow> manager \<Rightarrow> (outcome list \<times> manager) option" where
  "addTrialData_seq n env [] s = Some ([], s)"
| "addTrialData_seq n env (t # ts) s =
     (case addTrialData n env t s of
        None \<Rightarrow> None
      | Some (out, s1) \<Rightarrow>
          (case addTrialData_seq n env ts s1 of
             None \<Rightarrow> None
           | Some (outs, s2) \<Rightarrow> Some (out # outs, s2)))"

subsection \<open>The remaining methods\<close>

definition getNumberOfOperations :: "manager \<Rightarrow> nat" where
  "getNumberOfOperations s = numberOfOperations s"

definition isInitialized :: "manager \<Rightarrow> bool" where
  "isInitialized s = (initialized s \<and> truthy_opt (rowId s))"

text \<open>
  The function returned by \<^verbatim>\<open>createDataUpdateCallback\<close>. It returns the trial object at
  once; the \<^verbatim>\<open>addTrialData\<close> it starts is not awaited, and its rejection is only logged.
  The second component is the manager once that call has settled (\<open>None\<close> if it never
  does); for a suppressed trial no call is started and the manager is the one given.
\<close>

definition createDataUpdateCallback ::
  "nat \<Rightarrow> remote \<Rightarrow> obj \<Rightarrow> manager \<Rightarrow> obj \<times> manager option" where
  "createDataUpdateCallback n env data s =
     (if truthy_opt (obj_get data ''no_upload'')
      then (obj_delete ''no_upload'' data, Some s)
      else (data,
            case addTrialData n env data s of
              None \<Rightarrow> None
            | Some (Returned, s1) \<Rightarrow> Some s1
            | Some (Threw e, s1) \<Rightarrow>
                Some (say ERROR ''[SupabaseManager] Error in data update callback:'' (ErrArg e) s1)))"

text \<open>The function returned by \<^verbatim>\<open>createFinishCallback\<close>.\<close>

definition createFinishCallback :: "manager \<Rightarrow> manager" where
  "createFinishCallback s =
     (let s1 = say LOG ''[SupabaseManager] Total operations performed:''
                 (NumArg (getNumberOfOperations s)) s
      in if pendingTrials s1 \<noteq> []
         then say WARN ''[SupabaseManager] Warning: trials were not processed''
                (NumArg (length (pendingTrials s1))) s1
         else s1)"

section \<open>Document-store adapter (FirebaseManager)\<close>

text \<open>
  \<^verbatim>\<open>setDoc\<close> and \<^verbatim>\<open>updateDoc\<close> resolve (\<open>None\<close>) or reject with an error. The document
  handle is fixed at construction and plays no part below.
\<close>

datatype fb_event =
    SetDoc obj "js_error option"
  | UpdateDoc_arrayUnion obj "js_error option"

record fb_remote =
  on_setDoc :: "fb_event list \<Rightarrow> js_error option"
  on_updateDoc :: "fb_event list \<Rightarrow> js_error option"

record firebase_manager =
  fb_metadata :: obj
  numberOfWrites :: nat
  fb_calls :: "fb_event list"
  fb_console :: "console_line list"

definition fb_say :: "level \<Rightarrow> string \<Rightarrow> console_arg \<Rightarrow> firebase_manager \<Rightarrow> firebase_manager" where
  "fb_say l msg a s = s\<lparr>fb_console := fb_console s @ [Console l msg a]\<rparr>"

definition FirebaseManager :: "string \<Rightarrow> string \<Rightarrow> obj option \<Rightarrow> firebase_manager" where
  "FirebaseManager date time md =
     \<lparr> fb_metadata = DataManager_metadata date time md, numberOfWrites = 0,
       fb_calls = [], fb_console = [] \<rparr>"

definition FirebaseManager_initializeExperiment ::
  "fb_remote \<Rightarrow> obj \<Rightarrow> firebase_manager \<Rightarrow> outcome \<times> firebase_manager" where
  "FirebaseManager_initializeExperiment env additionalData s =
     (let initialData = spread (obj_set ''trials'' (JArr []) (spread [] (fb_metadata s))) additionalData;
          r = on_setDoc env (fb_calls s);
          s1 = s\<lparr>fb_calls := fb_calls s @ [SetDoc initialData r]\<rparr>
      in case r of
           None \<Rightarrow>
             (Returned,
              fb_say LOG ''[FirebaseManager] Document successfully created!'' NoArg
                (s1\<lparr>numberOfWrites := numberOfWrites s1 + 1\<rparr>))
         | Some e \<Rightarrow>
             (Threw (new_Error ''Failed to initialize experiment document''),
              fb_say ERROR ''[FirebaseManager] Error creating document:'' (ErrArg e) s1))"

definition FirebaseManager_addTrialData ::
  "fb_remote \<Rightarrow> obj \<Rightarrow> firebase_manager \<Rightarrow> outcome \<times> firebase_manager" where
  "FirebaseManager_addTrialData env trialData s =
     (let flattenedData = flattenNestedArrays trialData;
          r = on_updateDoc env (fb_calls s);
          s1 = s\<lparr>fb_calls := fb_calls s @ [UpdateDoc_arrayUnion flattenedData r]\<rparr>
      in case r of
           None \<Rightarrow>
             (Returned,
              fb_say LOG ''[FirebaseManager] Added trial data:'' (ObjArg flattenedData)
                (s1\<lparr>numberOfWrites := numberOfWrites s1 + 1\<rparr>))
         | Some e \<Rightarrow>
             (Threw (new_Error ''Failed to store trial data''),
              fb_say ERROR ''[FirebaseManager] Error storing trial data:'' (ErrArg e) s1))"

definition FirebaseManager_createDataUpdateCallback ::
  "fb_remote \<Rightarrow> obj \<Rightarrow> firebase_manager \<Rightarrow> obj \<times> firebase_manager" where
  "FirebaseManager_createDataUpdateCallback env data s =
     (if truthy_opt (obj_get data ''no_upload'')
      then (obj_delete ''no_upload'' data, s)
      else (data,
            case FirebaseManager_addTrialData env data s of
              (Returned, s1) \<Rightarrow> s1
            | (Threw e, s1) \<Rightarrow>
                fb_say ERROR ''[FirebaseManager] Error in data update callback:'' (ErrArg e) s1))"

section \<open>Reading the record of remote calls\<close>

text \<open>
  A write that the manager counts. \<^verbatim>\<open>this.numberOfOperations++\<close> stands after an update
  that answered without error (lines 101 and 219) and, for an insert, after the
  identifier test and the replay (line 147): an insert that answered without error is
  counted only if it also returned an identifier the manager could adopt.
\<close>

fun counted_write :: "event \<Rightarrow> bool" where
  "counted_write (Insert tbl payload reply) =
     (ins_error reply = None \<and> returned_id reply \<noteq> None)"
| "counted_write (Update tbl payload rid err) = (err = None)"
| "counted_write (SelectTrials tbl rid reply) = False"

definition counted_writes :: "event list \<Rightarrow> nat" where
  "counted_writes evs = length (filter counted_write evs)"

text \<open>
  The trial an update persisted: \<^verbatim>\<open>addTrialData\<close> writes the fetched array with the new
  trial at its end, so an update that answered without error persisted the last element
  of the \<^verbatim>\<open>trials\<close> array it sent.
\<close>

fun appended_by :: "event \<Rightarrow> json list" where
  "appended_by (Update tbl payload rid None) =
     (case obj_get payload ''trials'' of
        Some (JArr xs) \<Rightarrow> (if xs = [] then [] else [last xs])
      | _ \<Rightarrow> [])"
| "appended_by ev = []"

definition persisted :: "event list \<Rightarrow> json list" where
  "persisted evs = concat (map appended_by evs)"

text \<open>The kind of a remote call, for statements about the order of calls.\<close>

datatype call_kind = INSERT | UPDATE | SELECT

fun kind_of :: "event \<Rightarrow> call_kind" where
  "kind_of (Insert tbl payload reply) = INSERT"
| "kind_of (Update tbl payload rid err) = UPDATE"
| "kind_of (SelectTrials tbl rid reply) = SELECT"

text \<open>
  The failures the replay loop wrote to the console, one per caught rejection
  (\<^verbatim>\<open>console.error("[SupabaseManager] Error processing pending trial:", e)\<close>).
\<close>

fun replay_failure :: "console_line \<Rightarrow> js_error list" where
  "replay_failure (Console ERROR msg (ErrArg e)) =
     (if msg = ''[SupabaseManager] Error processing pending trial:'' then [e] else [])"
| "replay_failure line = []"

definition replay_failures :: "console_line list \<Rightarrow> js_error list" where
  "replay_failures c = concat (map replay_failure c)"

text \<open>
  The bookkeeping relation between the manager before a call and the manager after it:
  the record of remote calls has only grown, the operation counter has grown by the
  number of counted writes among the new calls, and a call that threw added none.
\<close>

definition tallied :: "manager \<Rightarrow> outcome \<Rightarrow> manager \<Rightarrow> bool" where
  "tallied s out s' =
     (let k = length (calls s); evs = drop k (calls s')
      in take k (calls s') = calls s
         \<and> numberOfOperations s' = numberOfOperations s + counted_writes evs
         \<and> (out = Returned \<or> counted_writes evs = 0))"

section \<open>Example managers and remotes\<close>

text \<open>
  Concrete inputs on which the theorems below are exercised. \<open>table_remote\<close> behaves as
  a healthy table with a single row: every call succeeds, an insert answers with the row
  and its identifier, and a read answers with the \<^verbatim>\<open>trials\<close> array written last.
\<close>

definition trial_t1 :: obj where
  "trial_t1 = [(''trial_type'', JStr ''t1'')]"

definition trial_t2 :: obj where
  "trial_t2 = [(''trial_type'', JStr ''t2'')]"

definition suppressed_trial :: obj where
  "suppressed_trial = [(''trial_type'', JStr ''t1''), (''no_upload'', JBool True)]"

definition no_options :: SupabaseManagerOptions where
  "no_options = \<lparr> opt_metadata = None, opt_tableName = None, opt_rowId = None \<rparr>"

definition fresh_manager :: manager where
  "fresh_manager = SupabaseManager ''2024-05-01'' ''09:30:00'' no_options"

definition fixed_manager :: manager where
  "fixed_manager =
     SupabaseManager ''2024-05-01'' ''09:30:00'' (no_options\<lparr>opt_rowId := Some ''row-1''\<rparr>)"

definition fresh_firebase_manager :: firebase_manager where
  "fresh_firebase_manager = FirebaseManager ''2024-05-01'' ''09:30:00'' None"

fun written_trials :: "event \<Rightarrow> json list option" where
  "written_trials (Insert tbl payload (InsertReply rows None)) =
     (case obj_get payload ''trials'' of Some (JArr xs) \<Rightarrow> Some xs | _ \<Rightarrow> None)"
| "written_trials (Update tbl payload rid None) =
     (case obj_get payload ''trials'' of Some (JArr xs) \<Rightarrow> Some xs | _ \<Rightarrow> None)"
| "written_trials ev = None"

fun stored_trials :: "json list \<Rightarrow> event list \<Rightarrow> json list" where
  "stored_trials cur [] = cur"
| "stored_trials cur (ev # evs) =
     stored_trials (case written_trials ev of None \<Rightarrow> cur | Some xs \<Rightarrow> xs) evs"

definition table_remote :: remote where
  "table_remote =
     \<lparr> on_insert = (\<lambda>h. InsertReply (Some [[(''id'', JStr ''row-7'')]]) None),
       on_select = (\<lambda>h. SelectReply (Some (stored_trials [] h)) None),
       on_update = (\<lambda>h. None),
       now = (\<lambda>h. ''2024-05-01T09:30:05.000Z'') \<rparr>"

definition server_error :: js_error where
  "server_error = JsError False ''500'' ''upstream unavailable''"

definition row_missing :: js_error where
  "row_missing = JsError False ''PGRST116'' ''JSON object requested, multiple (or no) rows returned''"

text \<open>Inserts are refused.\<close>

definition refusing_remote :: remote where
  "refusing_remote = table_remote\<lparr>on_insert := (\<lambda>h. InsertReply None (Some server_error))\<rparr>"

text \<open>Inserts succeed but the answer carries no row.\<close>

definition silent_remote :: remote where
  "silent_remote = table_remote\<lparr>on_insert := (\<lambda>h. InsertReply (Some []) None)\<rparr>"

text \<open>Reads of the column fail with a server error.\<close>

definition unreadable_remote :: remote where
  "unreadable_remote = table_remote\<lparr>on_select := (\<lambda>h. SelectReply None (Some server_error))\<rparr>"

text \<open>The row is reported missing on the very first call and is fine afterwards.\<close>

definition row_lost_once_remote :: remote where
  "row_lost_once_remote =
     table_remote\<lparr>on_select := (\<lambda>h. if h = [] then SelectReply None (Some row_missing)
                                    else SelectReply (Some (stored_trials [] h)) None)\<rparr>"

definition network_error :: js_error where
  "network_error = JsError True [] ''fetch failed''"

text \<open>Updates are refused.\<close>

definition unwritable_remote :: remote where
  "unwritable_remote = table_remote\<lparr>on_update := (\<lambda>h. Some network_error)\<rparr>"

text \<open>The first read of the column reports the row missing; everything else succeeds.\<close>

definition first_read_missing_remote :: remote where
  "first_read_missing_remote =
     table_remote\<lparr>on_select := (\<lambda>h. if SELECT \<in> set (map kind_of h)
                                    then SelectReply (Some (stored_trials [] h)) None
                                    else SelectReply None (Some row_missing))\<rparr>"

text \<open>
  The first insert succeeds; afterwards every read reports the row missing and every
  further insert is refused.
\<close>

definition vanishing_row_remote :: remote where
  "vanishing_row_remote =
     table_remote\<lparr>on_insert := (\<lambda>h. if h = [] then InsertReply (Some [[(''id'', JStr ''row-7'')]]) None
                                    else InsertReply None (Some server_error)),
                  on_select := (\<lambda>h. SelectReply None (Some row_missing))\<rparr>"

text \<open>A manager without identity on which \<^verbatim>\<open>addTrialData\<close> was called twice.\<close>

definition queued_manager :: manager where
  "queued_manager = snd (the (addTrialData_seq 0 table_remote [trial_t1, trial_t2] fresh_manager))"

definition quiet_firebase :: fb_remote where
  "quiet_firebase = \<lparr> on_setDoc = (\<lambda>h. None), on_updateDoc = (\<lambda>h. None) \<rparr>"

definition failing_firebase :: fb_remote where
  "failing_firebase =
     \<lparr> on_setDoc = (\<lambda>h. Some server_error), on_updateDoc = (\<lambda>h. Some server_error) \<rparr>"

section \<open>Shared lemmas\<close>

lemma string_of_nat_0: "string_of_nat 0 = ''0''"
  by (simp add: string_of_nat.simps digit_char_def)

lemma string_of_nat_1: "string_of_nat (Suc 0) = ''1''"
  by (simp add: string_of_nat.simps digit_char_def)

lemma obj_get_delete: "obj_get (obj_delete k ob) k = None"
  by (induction ob) (auto simp: obj_get_def obj_delete_def)

lemma say_fields [simp]:
  "pendingTrials (say l m a s) = pendingTrials s"
  "rowId (say l m a s) = rowId s"
  "initialized (say l m a s) = initialized s"
  "numberOfOperations (say l m a s) = numberOfOperations s"
  "calls (say l m a s) = calls s"
  "tableName (say l m a s) = tableName s"
  "metadata (say l m a s) = metadata s"
  "console (say l m a s) = console s @ [Console l m a]"
  by (simp_all add: say_def)

lemma handleRlsError_fields [simp]:
  "pendingTrials (handleRlsError e s) = pendingTrials s"
  "rowId (handleRlsError e s) = rowId s"
  "initialized (handleRlsError e s) = initialized s"
  "numberOfOperations (handleRlsError e s) = numberOfOperations s"
  "calls (handleRlsError e s) = calls s"
  "tableName (handleRlsError e s) = tableName s"
  "metadata (handleRlsError e s) = metadata s"
  by (simp_all add: handleRlsError_def)

lemma after_insert_failed:
  assumes "ins_error reply \<noteq> None \<or> returned_id reply = None"
  shows "\<exists>e s'. after_insert n env payload reply s = Some (Threw e, s')
           \<and> pendingTrials s' = pendingTrials s \<and> rowId s' = rowId s
           \<and> initialized s' = initialized s
           \<and> numberOfOperations s' = numberOfOperations s
           \<and> calls s' = calls s @ [Insert (tableName s) payload reply]"
  using assms
  by (auto simp: after_insert.simps init_catch_def Let_def split: option.splits)

lemma obj_get_obj_set: "obj_get (obj_set k v ob) k' = (if k' = k then Some v else obj_get ob k')"
  by (induction ob) (auto simp: obj_get_def)

lemma obj_get_spread_None:
  "obj_get (spread a b) k = None \<longleftrightarrow> obj_get a k = None \<and> obj_get b k = None"
proof -
  have "obj_get (fold (\<lambda>(k, v). obj_set k v) b a) k = None
          \<longleftrightarrow> obj_get a k = None \<and> obj_get b k = None" for a
  proof (induction b arbitrary: a)
    case Nil
    then show ?case by (simp add: obj_get_def)
  next
    case (Cons kv b)
    obtain k' v' where kv: "kv = (k', v')" by (cases kv)
    have "obj_get (kv # b) k = None \<longleftrightarrow> k' \<noteq> k \<and> obj_get b k = None"
      by (auto simp: kv obj_get_def)
    then show ?case
      using Cons.IH[of "obj_set k' v' a"] by (auto simp: kv obj_get_obj_set)
  qed
  then show ?thesis by (simp add: spread_def)
qed

lemma update_payload_trials:
  "obj_get (update_payload env additionalData s) ''trials'' = None
     \<longleftrightarrow> obj_get (metadata s) ''trials'' = None \<and> obj_get additionalData ''trials'' = None"
  by (simp add: update_payload_def obj_get_obj_set obj_get_spread_None) (simp add: obj_get_def)

lemma processPending_append:
  "processPending n env (xs @ ys) s =
     (case processPending n env xs s of None \<Rightarrow> None | Some s1 \<Rightarrow> processPending n env ys s1)"
  by (induction xs arbitrary: s)
     (auto simp: processPending.simps split: option.splits outcome.splits prod.splits)

lemma attempt_None [simp]: "attempt n env None t = None"
  by (simp add: attempt_def)

lemma foldl_attempt_None [simp]: "foldl (attempt n env) None ts = None"
  by (induction ts) simp_all

lemma processPending_attempt:
  "processPending n env ts s = foldl (attempt n env) (Some s) ts"
proof (induction ts arbitrary: s)
  case Nil
  then show ?case by (simp add: processPending.simps)
next
  case (Cons t ts)
  have step: "attempt n env (Some s) t =
     (case addTrialData n env t s of
             None \<Rightarrow> None
           | Some (Returned, s1) \<Rightarrow> Some s1
           | Some (Threw e, s1) \<Rightarrow>
               Some (say ERROR ''[SupabaseManager] Error processing pending trial:'' (ErrArg e) s1))"
    by (simp add: attempt_def)
  show ?case
    by (simp add: processPending.simps step Cons.IH
          split: option.splits outcome.splits prod.splits)
qed

lemma addTrialData_uninitialized:
  "\<not> initialized s \<Longrightarrow> addTrialData n env t s =
     Some (Returned,
           (say LOG ''[SupabaseManager] Not initialized yet, storing trial for later processing''
                    NoArg s)\<lparr>pendingTrials := pendingTrials s @ [t]\<rparr>)"
  by (simp add: addTrialData.simps)

lemma addTrialData_seq_uninitialized:
  "\<not> initialized s \<Longrightarrow>
   \<exists>s1. addTrialData_seq n env ts s = Some (replicate (length ts) Returned, s1)
      \<and> pendingTrials s1 = pendingTrials s @ ts \<and> calls s1 = calls s
      \<and> \<not> initialized s1 \<and> rowId s1 = rowId s
      \<and> numberOfOperations s1 = numberOfOperations s
      \<and> tableName s1 = tableName s \<and> metadata s1 = metadata s"
proof (induction ts arbitrary: s)
  case Nil
  then show ?case by simp
next
  case (Cons t ts)
  let ?s = "(say LOG ''[SupabaseManager] Not initialized yet, storing trial for later processing''
                    NoArg s)\<lparr>pendingTrials := pendingTrials s @ [t]\<rparr>"
  have "\<not> initialized ?s" using Cons.prems by simp
  from Cons.IH[OF this] obtain s1 where
    "addTrialData_seq n env ts ?s = Some (replicate (length ts) Returned, s1)"
    "pendingTrials s1 = pendingTrials ?s @ ts" "calls s1 = calls ?s"
    "\<not> initialized s1" "rowId s1 = rowId ?s" "numberOfOperations s1 = numberOfOperations ?s"
    "tableName s1 = tableName ?s" "metadata s1 = metadata ?s"
    by blast
  then show ?case
    using Cons.prems by (simp add: addTrialData_uninitialized)
qed

lemma after_insert_ok:
  assumes "ins_error reply = None" and "returned_id reply = Some rid"
  shows "after_insert n env payload reply s =
     map_option (\<lambda>s3. (Returned, initialized_ok s3))
       (foldl (attempt n env)
          (Some (if pendingTrials s = []
                 then adopt_row rid (s\<lparr>calls := calls s @ [Insert (tableName s) payload reply]\<rparr>)
                 else take_pending
                        (adopt_row rid (s\<lparr>calls := calls s @ [Insert (tableName s) payload reply]\<rparr>))))
          (pendingTrials s))"
  using assms
  by (auto simp: after_insert.simps Let_def adopt_row_def processPending_attempt
           split: option.splits)

lemma tallied_iff:
  "tallied s out s' \<longleftrightarrow>
     (\<exists>evs. calls s' = calls s @ evs
        \<and> numberOfOperations s' = numberOfOperations s + counted_writes evs
        \<and> (out = Returned \<or> counted_writes evs = 0))"
proof
  assume t: "tallied s out s'"
  then have "calls s' = calls s @ drop (length (calls s)) (calls s')"
    by (metis append_take_drop_id tallied_def)
  with t show "\<exists>evs. calls s' = calls s @ evs
        \<and> numberOfOperations s' = numberOfOperations s + counted_writes evs
        \<and> (out = Returned \<or> counted_writes evs = 0)"
    unfolding tallied_def Let_def by blast
next
  assume "\<exists>evs. calls s' = calls s @ evs
        \<and> numberOfOperations s' = numberOfOperations s + counted_writes evs
        \<and> (out = Returned \<or> counted_writes evs = 0)"
  then show "tallied s out s'"
    by (auto simp: tallied_def)
qed

lemma counted_writes_simps [simp]:
  "counted_writes [] = 0"
  "counted_writes (ev # evs) = (if counted_write ev then 1 else 0) + counted_writes evs"
  "counted_writes (xs @ ys) = counted_writes xs + counted_writes ys"
  by (simp_all add: counted_writes_def)

lemma forget_row_fields [simp]:
  "pendingTrials (forget_row t s) = pendingTrials s @ [t]"
  "rowId (forget_row t s) = None"
  "initialized (forget_row t s) = False"
  "numberOfOperations (forget_row t s) = numberOfOperations s"
  "calls (forget_row t s) = calls s"
  "tableName (forget_row t s) = tableName s"
  "metadata (forget_row t s) = metadata s"
  by (simp_all add: forget_row_def)

lemma adopt_row_fields [simp]:
  "pendingTrials (adopt_row rid s) = pendingTrials s"
  "rowId (adopt_row rid s) = Some rid"
  "initialized (adopt_row rid s) = True"
  "numberOfOperations (adopt_row rid s) = numberOfOperations s"
  "calls (adopt_row rid s) = calls s"
  "tableName (adopt_row rid s) = tableName s"
  "metadata (adopt_row rid s) = metadata s"
  by (simp_all add: adopt_row_def)

lemma take_pending_fields [simp]:
  "pendingTrials (take_pending s) = []"
  "rowId (take_pending s) = rowId s"
  "initialized (take_pending s) = initialized s"
  "numberOfOperations (take_pending s) = numberOfOperations s"
  "calls (take_pending s) = calls s"
  "tableName (take_pending s) = tableName s"
  "metadata (take_pending s) = metadata s"
  by (simp_all add: take_pending_def)

lemma initialized_ok_fields [simp]:
  "pendingTrials (initialized_ok s) = pendingTrials s"
  "rowId (initialized_ok s) = rowId s"
  "initialized (initialized_ok s) = initialized s"
  "numberOfOperations (initialized_ok s) = numberOfOperations s + 1"
  "calls (initialized_ok s) = calls s"
  "tableName (initialized_ok s) = tableName s"
  "metadata (initialized_ok s) = metadata s"
  by (simp_all add: initialized_ok_def)

lemma tallied_same:
  "calls s0 = calls s \<Longrightarrow> numberOfOperations s0 = numberOfOperations s \<Longrightarrow>
   tallied s0 out s' \<Longrightarrow> tallied s out s'"
  by (simp add: tallied_def)

lemma tallied_after:
  assumes "calls s0 = calls s @ pre" and "numberOfOperations s0 = numberOfOperations s"
      and "counted_writes pre = 0" and "tallied s0 out s'"
  shows "tallied s out s'"
proof -
  from assms(4) obtain evs where
    "calls s' = calls s0 @ evs"
    "numberOfOperations s' = numberOfOperations s0 + counted_writes evs"
    "out = Returned \<or> counted_writes evs = 0"
    unfolding tallied_iff by blast
  with assms(1-3) show ?thesis
    unfolding tallied_iff by (intro exI[of _ "pre @ evs"]) simp
qed

lemma tallied_then:
  assumes "tallied s out1 s1" and "tallied s1 out s'" and "out = Returned \<or> out1 \<noteq> Returned"
  shows "tallied s out s'"
proof -
  from assms(1) obtain evs1 where 1:
    "calls s1 = calls s @ evs1"
    "numberOfOperations s1 = numberOfOperations s + counted_writes evs1"
    "out1 = Returned \<or> counted_writes evs1 = 0"
    unfolding tallied_iff by blast
  from assms(2) obtain evs where 2:
    "calls s' = calls s1 @ evs"
    "numberOfOperations s' = numberOfOperations s1 + counted_writes evs"
    "out = Returned \<or> counted_writes evs = 0"
    unfolding tallied_iff by blast
  from 1 2 assms(3) show ?thesis
    unfolding tallied_iff by (intro exI[of _ "evs1 @ evs"]) auto
qed

lemma catch_tallied:
  assumes IH: "\<And>m a s out s'. n = Suc m \<Longrightarrow> initializeExperiment m env a s = Some (out, s')
                 \<Longrightarrow> tallied s out s'"
      and r: "addTrialData_catch n env t e s = Some (out, s')"
  shows "tallied s out s'"
proof (cases "instance_of_Error e \<and> str_includes (error_message e) ''not found''")
  case True
  with r obtain m where m: "n = Suc m"
    and i: "initializeExperiment m env []
              (forget_row t (say ERROR ''[SupabaseManager] Error storing trial data:'' (ErrArg e) s))
            = Some (out, s')"
    by (cases n) (auto simp: addTrialData_catch.simps Let_def)
  from IH[OF m i] show ?thesis by (rule tallied_same[rotated 2]) simp_all
next
  case False
  with r show ?thesis
    by (auto simp: addTrialData_catch.simps Let_def tallied_def)
qed

lemma add_tallied:
  assumes IH: "\<And>m a s out s'. n = Suc m \<Longrightarrow> initializeExperiment m env a s = Some (out, s')
                 \<Longrightarrow> tallied s out s'"
      and r: "addTrialData n env t s = Some (out, s')"
  shows "tallied s out s'"
proof -
  consider (queue) "\<not> initialized s"
    | (norow) "initialized s" "\<not> truthy_opt (rowId s)"
    | (ready) "initialized s" "truthy_opt (rowId s)"
    by blast
  then show ?thesis
  proof cases
    case queue
    with r show ?thesis by (auto simp: addTrialData.simps tallied_def)
  next
    case norow
    with r obtain m where m: "n = Suc m"
      and i: "initializeExperiment m env []
                ((say LOG ''[SupabaseManager] No row ID available, storing trial for later processing''
                      NoArg s)
                   \<lparr>pendingTrials := pendingTrials s @ [t], initialized := False\<rparr>) = Some (out, s')"
      by (cases n) (auto simp: addTrialData.simps)
    from IH[OF m i] show ?thesis by (rule tallied_same[rotated 2]) simp_all
  next
    case ready
    define sel where "sel = on_select env (calls s)"
    define s1 where "s1 = s\<lparr>calls := calls s @ [SelectTrials (tableName s) (rowId s) sel]\<rparr>"
    have f: "fetch_trials env s = (sel, s1)"
      by (simp add: fetch_trials_def sel_def s1_def Let_def)
    have s1: "calls s1 = calls s @ [SelectTrials (tableName s) (rowId s) sel]"
      "numberOfOperations s1 = numberOfOperations s"
      by (simp_all add: s1_def)
    show ?thesis
    proof (cases "sel_error sel")
      case (Some fe)
      define s2 where "s2 = handleRlsError fe
                              (say ERROR ''[SupabaseManager] Error fetching current data:''
                                 (ErrArg fe) s1)"
      have s2: "calls s2 = calls s @ [SelectTrials (tableName s) (rowId s) sel]"
        "numberOfOperations s2 = numberOfOperations s"
        by (simp_all add: s2_def s1)
      show ?thesis
      proof (cases "error_code fe = ''PGRST116''")
        case True
        with r ready f Some obtain m where m: "n = Suc m"
          and c: "(case initializeExperiment m env [] (forget_row t s2) of
                     None \<Rightarrow> None
                   | Some (Returned, s3) \<Rightarrow> Some (Returned, s3)
                   | Some (Threw e, s3) \<Rightarrow> addTrialData_catch n env t e s3) = Some (out, s')"
          by (cases n) (auto simp: addTrialData.simps s2_def Let_def)
        then obtain o3 s3 where i: "initializeExperiment m env [] (forget_row t s2) = Some (o3, s3)"
          by (auto split: option.splits)
        from IH[OF m i] have t3: "tallied s2 o3 s3"
          by (rule tallied_same[rotated 2]) simp_all
        have "tallied s2 out s'"
        proof (cases o3)
          case Returned
          with c i t3 show ?thesis by simp
        next
          case (Threw e')
          with c i have "addTrialData_catch n env t e' s3 = Some (out, s')" by simp
          from catch_tallied[OF IH this] have "tallied s3 out s'" .
          with t3 Threw show ?thesis by (auto intro: tallied_then)
        qed
        from tallied_after[OF s2(1) s2(2) _ this] show ?thesis by simp
      next
        case False
        with r ready f Some have "addTrialData_catch n env t fe s2 = Some (out, s')"
          by (simp add: addTrialData.simps s2_def Let_def)
        from catch_tallied[OF IH this] have "tallied s2 out s'" .
        from tallied_after[OF s2(1) s2(2) _ this] show ?thesis by simp
      qed
    next
      case None
      define upd where "upd = write_trials env
                          ((case sel_trials sel of None \<Rightarrow> [] | Some ts \<Rightarrow> ts) @ [JObj t]) s1"
      obtain ue s2 where u: "upd = (ue, s2)" by (cases upd)
      then obtain payload where s2:
        "calls s2 = calls s @ [SelectTrials (tableName s) (rowId s) sel,
                               Update (tableName s) payload (rowId s) ue]"
        "numberOfOperations s2 = numberOfOperations s"
        by (auto simp: upd_def write_trials_def Let_def s1_def)
      show ?thesis
      proof (cases ue)
        case (Some e)
        with r ready f None u have "addTrialData_catch n env t e
                (handleRlsError e (say ERROR ''[SupabaseManager] Error updating data:'' (ErrArg e) s2))
              = Some (out, s')"
          by (simp add: addTrialData.simps upd_def)
        from catch_tallied[OF IH this] have "tallied s2 out s'"
          by (rule tallied_same[rotated 2]) simp_all
        from tallied_after[OF s2(1) s2(2) _ this] Some show ?thesis by simp
      next
        case ue: None
        with r ready f None u have "out = Returned"
          "s' = say LOG ''[SupabaseManager] Added trial data:'' (ObjArg t)
                  (s2\<lparr>numberOfOperations := numberOfOperations s2 + 1\<rparr>)"
          by (simp_all add: addTrialData.simps upd_def)
        with s2 ue show ?thesis
          by (auto simp: tallied_iff)
      qed
    qed
  qed
qed

lemma pending_tallied:
  assumes add: "\<And>t s out s'. addTrialData n env t s = Some (out, s') \<Longrightarrow> tallied s out s'"
      and r: "processPending n env ts s = Some s'"
  shows "tallied s Returned s'"
  using r
proof (induction ts arbitrary: s)
  case Nil
  then show ?case by (simp add: processPending.simps tallied_def)
next
  case (Cons t ts)
  from Cons.prems obtain out s1 where a: "addTrialData n env t s = Some (out, s1)"
    by (auto simp: processPending.simps split: option.splits)
  from add[OF a] have t1: "tallied s Returned s1"
    by (auto simp: tallied_iff)
  show ?case
  proof (cases out)
    case Returned
    with Cons.prems a have "processPending n env ts s1 = Some s'"
      by (simp add: processPending.simps)
    from tallied_then[OF t1 Cons.IH[OF this]] show ?thesis by simp
  next
    case (Threw e)
    with Cons.prems a have "processPending n env ts
            (say ERROR ''[SupabaseManager] Error processing pending trial:'' (ErrArg e) s1) = Some s'"
      by (simp add: processPending.simps)
    from Cons.IH[OF this] have "tallied s1 Returned s'"
      by (rule tallied_same[rotated 2]) simp_all
    from tallied_then[OF t1 this] show ?thesis by simp
  qed
qed

lemma after_insert_tallied:
  assumes add: "\<And>t s out s'. addTrialData n env t s = Some (out, s') \<Longrightarrow> tallied s out s'"
      and r: "after_insert n env payload reply s = Some (out, s')"
  shows "tallied s out s'"
proof -
  define s1 where "s1 = s\<lparr>calls := calls s @ [Insert (tableName s) payload reply]\<rparr>"
  have s1: "calls s1 = calls s @ [Insert (tableName s) payload reply]"
    "numberOfOperations s1 = numberOfOperations s" "pendingTrials s1 = pendingTrials s"
    by (simp_all add: s1_def)
  consider (err) e where "ins_error reply = Some e"
    | (noid) "ins_error reply = None" "returned_id reply = None"
    | (ok) rid where "ins_error reply = None" "returned_id reply = Some rid"
    by (cases "ins_error reply"; cases "returned_id reply") auto
  then show ?thesis
  proof cases
    case err
    with r show ?thesis
      by (auto simp: after_insert.simps init_catch_def tallied_iff Let_def)
  next
    case noid
    with r show ?thesis
      by (auto simp: after_insert.simps init_catch_def tallied_iff Let_def)
  next
    case ok
    with r obtain s3 where
      d: "(if pendingTrials s \<noteq> []
           then processPending n env (pendingTrials s) (take_pending (adopt_row rid s1))
           else Some (adopt_row rid s1)) = Some s3"
      and fin: "out = Returned" "s' = initialized_ok s3"
      by (auto simp: after_insert.simps Let_def s1_def split: option.splits if_splits)
    have "tallied (adopt_row rid s1) Returned s3"
    proof (cases "pendingTrials s = []")
      case True
      with d show ?thesis by (simp add: tallied_def)
    next
      case False
      with d have "processPending n env (pendingTrials s) (take_pending (adopt_row rid s1)) = Some s3"
        by simp
      from pending_tallied[OF add this] show ?thesis
        by (rule tallied_same[rotated 2]) simp_all
    qed
    then obtain evs where
      "calls s3 = calls s @ Insert (tableName s) payload reply # evs"
      "numberOfOperations s3 = numberOfOperations s + counted_writes evs"
      by (auto simp: tallied_iff s1)
    with fin ok show ?thesis
      by (auto simp: tallied_iff)
  qed
qed

lemma init_tallied:
  assumes add: "\<And>t s out s'. addTrialData n env t s = Some (out, s') \<Longrightarrow> tallied s out s'"
      and r: "initializeExperiment n env a s = Some (out, s')"
  shows "tallied s out s'"
proof (cases "initialized s \<and> truthy_opt (rowId s)")
  case True
  with r have "update_existing env a s = (out, s')"
    by (simp add: initializeExperiment.simps)
  then show ?thesis
    by (auto simp: update_existing_def init_catch_def tallied_iff Let_def split: option.splits)
next
  case False
  with r have "after_insert n env (insert_payload a s) (on_insert env (calls s)) s = Some (out, s')"
    by (auto simp: initializeExperiment.simps)
  from after_insert_tallied[OF add this] show ?thesis .
qed

lemma initializeExperiment_tallied:
  "initializeExperiment n env a s = Some (out, s') \<Longrightarrow> tallied s out s'"
proof (induction n arbitrary: env a s out s')
  case 0
  have add: "\<And>t s out s'. addTrialData 0 env t s = Some (out, s') \<Longrightarrow> tallied s out s'"
    by (rule add_tallied) simp_all
  from init_tallied[OF add 0] show ?case .
next
  case (Suc n)
  have add: "\<And>t s out s'. addTrialData (Suc n) env t s = Some (out, s') \<Longrightarrow> tallied s out s'"
    by (rule add_tallied[where n = "Suc n"]) (auto dest: Suc.IH)
  from init_tallied[OF add Suc.prems] show ?case .
qed

lemma addTrialData_tallied:
  "addTrialData n env t s = Some (out, s') \<Longrightarrow> tallied s out s'"
  by (rule add_tallied[where n = n]) (auto dest: initializeExperiment_tallied)

lemma addTrialData_succeeds:
  assumes "initialized s" and "truthy_opt (rowId s)"
      and "sel_error (on_select env (calls s)) = None"
      and "on_update env (calls s @ [SelectTrials (tableName s) (rowId s) (on_select env (calls s))]) = None"
  shows "\<exists>s'. addTrialData n env t s = Some (Returned, s')
            \<and> initialized s' \<and> rowId s' = rowId s \<and> pendingTrials s' = pendingTrials s
            \<and> tableName s' = tableName s \<and> metadata s' = metadata s
            \<and> numberOfOperations s' = numberOfOperations s + 1
            \<and> calls s' = calls s @
                 [SelectTrials (tableName s) (rowId s) (on_select env (calls s)),
                  Update (tableName s)
                    [(''trials'', JArr ((case sel_trials (on_select env (calls s)) of
                                           None \<Rightarrow> [] | Some ts \<Rightarrow> ts) @ [JObj t])),
                     (''updated_at'', JStr (now env (calls s @
                         [SelectTrials (tableName s) (rowId s) (on_select env (calls s))])))]
                    (rowId s) None]"
  using assms
  by (simp add: addTrialData.simps fetch_trials_def write_trials_def Let_def)

lemma addTrialData_fetch_refused:
  assumes "initialized s" and "truthy_opt (rowId s)"
      and "sel_error (on_select env (calls s)) = Some e"
      and "error_code e \<noteq> ''PGRST116''"
      and "\<not> (instance_of_Error e \<and> str_includes (error_message e) ''not found'')"
  shows "\<exists>s'. addTrialData n env t s
               = Some (Threw (new_Error (''Failed to store trial data: '' @ describe_error e)), s')
            \<and> pendingTrials s' = pendingTrials s \<and> rowId s' = rowId s \<and> initialized s'
            \<and> numberOfOperations s' = numberOfOperations s
            \<and> calls s' = calls s @ [SelectTrials (tableName s) (rowId s) (on_select env (calls s))]"
  using assms
  by (auto simp: addTrialData.simps addTrialData_catch.simps fetch_trials_def Let_def)

lemma addTrialData_update_refused:
  assumes "initialized s" and "truthy_opt (rowId s)"
      and "sel_error (on_select env (calls s)) = None"
      and "on_update env (calls s @ [SelectTrials (tableName s) (rowId s) (on_select env (calls s))]) = Some e"
      and "\<not> (instance_of_Error e \<and> str_includes (error_message e) ''not found'')"
  shows "\<exists>s'. addTrialData n env t s
               = Some (Threw (new_Error (''Failed to store trial data: '' @ describe_error e)), s')
            \<and> pendingTrials s' = pendingTrials s \<and> rowId s' = rowId s \<and> initialized s'
            \<and> numberOfOperations s' = numberOfOperations s"
  using assms
  by (auto simp: addTrialData.simps addTrialData_catch.simps fetch_trials_def write_trials_def Let_def)

lemma initializeExperiment_update_refused:
  assumes "initialized s" and "truthy_opt (rowId s)" and "on_update env (calls s) = Some e"
  shows "\<exists>s'. initializeExperiment n env a s
               = Some (Threw (new_Error (''Failed to initialize experiment data: '' @ describe_error e)), s')
            \<and> numberOfOperations s' = numberOfOperations s"
  using assms
  by (auto simp: initializeExperiment.simps update_existing_def init_catch_def Let_def)

lemma initializeExperiment_insert_refused:
  assumes "\<not> (initialized s \<and> truthy_opt (rowId s))" and "ins_error (on_insert env (calls s)) = Some e"
  shows "\<exists>s'. initializeExperiment n env a s
               = Some (Threw (new_Error (''Failed to initialize experiment data: '' @ describe_error e)), s')
            \<and> numberOfOperations s' = numberOfOperations s"
  using assms
  by (auto simp: initializeExperiment.simps after_insert.simps init_catch_def Let_def)

lemma persisted_simps [simp]:
  "persisted [] = []"
  "persisted (ev # evs) = appended_by ev @ persisted evs"
  "persisted (xs @ ys) = persisted xs @ persisted ys"
  by (simp_all add: persisted_def)

lemma returned_id_truthy: "returned_id reply = Some rid \<Longrightarrow> truthy rid"
  by (auto simp: returned_id_def split: option.splits list.splits if_splits)

lemma processPending_succeeds:
  assumes "\<forall>h. sel_error (on_select env h) = None" and "\<forall>h. on_update env h = None"
      and "initialized s" and "truthy_opt (rowId s)"
  shows "\<exists>s' evs. processPending n env ts s = Some s'
            \<and> initialized s' \<and> rowId s' = rowId s \<and> pendingTrials s' = pendingTrials s
            \<and> numberOfOperations s' = numberOfOperations s + length ts
            \<and> calls s' = calls s @ evs
            \<and> persisted evs = map JObj ts
            \<and> map kind_of evs = concat (map (\<lambda>t. [SELECT, UPDATE]) ts)
            \<and> counted_writes evs = length ts"
  using assms(3,4)
proof (induction ts arbitrary: s)
  case Nil
  then show ?case by (simp add: processPending.simps)
next
  case (Cons t ts)
  from addTrialData_succeeds[OF Cons.prems, of env n t] assms(1,2)
  obtain s1 where s1: "addTrialData n env t s = Some (Returned, s1)"
    "initialized s1" "rowId s1 = rowId s" "pendingTrials s1 = pendingTrials s"
    "numberOfOperations s1 = numberOfOperations s + 1"
    "calls s1 = calls s @
                 [SelectTrials (tableName s) (rowId s) (on_select env (calls s)),
                  Update (tableName s)
                    [(''trials'', JArr ((case sel_trials (on_select env (calls s)) of
                                           None \<Rightarrow> [] | Some ts \<Rightarrow> ts) @ [JObj t])),
                     (''updated_at'', JStr (now env (calls s @
                         [SelectTrials (tableName s) (rowId s) (on_select env (calls s))])))]
                    (rowId s) None]"
    by auto
  from s1(2,3) Cons.prems have "initialized s1" "truthy_opt (rowId s1)" by simp_all
  from Cons.IH[OF this] obtain s' evs where r:
    "processPending n env ts s1 = Some s'"
    "initialized s'" "rowId s' = rowId s1" "pendingTrials s' = pendingTrials s1"
    "numberOfOperations s' = numberOfOperations s1 + length ts"
    "calls s' = calls s1 @ evs" "persisted evs = map JObj ts"
    "map kind_of evs = concat (map (\<lambda>t. [SELECT, UPDATE]) ts)"
    "counted_writes evs = length ts"
    by blast
  show ?case
    apply (rule exI[of _ s'])
    apply (rule exI[of _ "[SelectTrials (tableName s) (rowId s) (on_select env (calls s)),
                  Update (tableName s)
                    [(''trials'', JArr ((case sel_trials (on_select env (calls s)) of
                                           None \<Rightarrow> [] | Some ts \<Rightarrow> ts) @ [JObj t])),
                     (''updated_at'', JStr (now env (calls s @
                         [SelectTrials (tableName s) (rowId s) (on_select env (calls s))])))]
                    (rowId s) None] @ evs"])
    using s1 r by (simp add: processPending.simps obj_get_def)
qed

lemma initializeExperiment_replays_all:
  assumes "\<not> (initialized s \<and> truthy_opt (rowId s))"
      and "ins_error (on_insert env (calls s)) = None"
      and "returned_id (on_insert env (calls s)) = Some rid"
      and "\<forall>h. sel_error (on_select env h) = None" and "\<forall>h. on_update env h = None"
  shows "\<exists>s' evs. initializeExperiment n env a s = Some (Returned, s')
            \<and> pendingTrials s' = [] \<and> initialized s' \<and> rowId s' = Some rid
            \<and> calls s' = calls s @ Insert (tableName s) (insert_payload a s) (on_insert env (calls s)) # evs
            \<and> persisted evs = map JObj (pendingTrials s)
            \<and> map kind_of evs = concat (map (\<lambda>t. [SELECT, UPDATE]) (pendingTrials s))
            \<and> counted_writes evs = length (pendingTrials s)
            \<and> numberOfOperations s' = numberOfOperations s + length (pendingTrials s) + 1"
proof -
  define s1 where "s1 = s\<lparr>calls := calls s @ [Insert (tableName s) (insert_payload a s) (on_insert env (calls s))]\<rparr>"
  have ai: "initializeExperiment n env a s =
     (case (if pendingTrials s \<noteq> []
            then processPending n env (pendingTrials s) (take_pending (adopt_row rid s1))
            else Some (adopt_row rid s1)) of
        None \<Rightarrow> None | Some s3 \<Rightarrow> Some (Returned, initialized_ok s3))"
    using assms(1-3) by (auto simp: initializeExperiment.simps after_insert.simps Let_def s1_def)
  show ?thesis
  proof (cases "pendingTrials s = []")
    case True
    then show ?thesis
      unfolding ai by (intro exI[of _ "initialized_ok (adopt_row rid s1)"] exI[of _ "[]"]) (simp add: s1_def)
  next
    case False
    have "initialized (take_pending (adopt_row rid s1))"
      "truthy_opt (rowId (take_pending (adopt_row rid s1)))"
      using returned_id_truthy[OF assms(3)] by (simp_all add: truthy_opt_def)
    from processPending_succeeds[OF assms(4,5) this, of n "pendingTrials s"]
    obtain s3 evs where r:
      "processPending n env (pendingTrials s) (take_pending (adopt_row rid s1)) = Some s3"
      "initialized s3" "rowId s3 = rowId (take_pending (adopt_row rid s1))"
      "pendingTrials s3 = pendingTrials (take_pending (adopt_row rid s1))"
      "numberOfOperations s3 = numberOfOperations (take_pending (adopt_row rid s1)) + length (pendingTrials s)"
      "calls s3 = calls (take_pending (adopt_row rid s1)) @ evs"
      "persisted evs = map JObj (pendingTrials s)"
      "map kind_of evs = concat (map (\<lambda>t. [SELECT, UPDATE]) (pendingTrials s))"
      "counted_writes evs = length (pendingTrials s)"
      by blast
    with False show ?thesis
      unfolding ai by (intro exI[of _ "initialized_ok s3"] exI[of _ evs]) (simp add: s1_def)
  qed
qed

lemma createFinishCallback_reports:
  "pendingTrials (createFinishCallback s) = pendingTrials s"
  "numberOfOperations (createFinishCallback s) = numberOfOperations s"
  "calls (createFinishCallback s) = calls s"
  "pendingTrials s \<noteq> [] \<Longrightarrow> last (console (createFinishCallback s))
      = Console WARN ''[SupabaseManager] Warning: trials were not processed''
          (NumArg (length (pendingTrials s)))"
  "pendingTrials s = [] \<Longrightarrow> last (console (createFinishCallback s))
      = Console LOG ''[SupabaseManager] Total operations performed:'' (NumArg (numberOfOperations s))"
  by (simp_all add: createFinishCallback_def Let_def getNumberOfOperations_def)

lemma after_insert_replays_all:
  assumes "ins_error reply = None" and "returned_id reply = Some rid"
      and "\<forall>h. sel_error (on_select env h) = None" and "\<forall>h. on_update env h = None"
  shows "\<exists>s' evs. after_insert n env payload reply s = Some (Returned, s')
            \<and> pendingTrials s' = [] \<and> initialized s' \<and> rowId s' = Some rid
            \<and> calls s' = calls s @ Insert (tableName s) payload reply # evs
            \<and> persisted evs = map JObj (pendingTrials s)
            \<and> map kind_of evs = concat (map (\<lambda>t. [SELECT, UPDATE]) (pendingTrials s))
            \<and> numberOfOperations s' = numberOfOperations s + length (pendingTrials s) + 1"
proof -
  define s1 where "s1 = s\<lparr>calls := calls s @ [Insert (tableName s) payload reply]\<rparr>"
  have ai: "after_insert n env payload reply s =
     (case (if pendingTrials s \<noteq> []
            then processPending n env (pendingTrials s) (take_pending (adopt_row rid s1))
            else Some (adopt_row rid s1)) of
        None \<Rightarrow> None | Some s3 \<Rightarrow> Some (Returned, initialized_ok s3))"
    using assms(1,2) by (auto simp: after_insert.simps Let_def s1_def)
  show ?thesis
  proof (cases "pendingTrials s = []")
    case True
    then show ?thesis
      unfolding ai by (intro exI[of _ "initialized_ok (adopt_row rid s1)"] exI[of _ "[]"]) (simp add: s1_def)
  next
    case False
    have "initialized (take_pending (adopt_row rid s1))"
      "truthy_opt (rowId (take_pending (adopt_row rid s1)))"
      using returned_id_truthy[OF assms(2)] by (simp_all add: truthy_opt_def)
    from processPending_succeeds[OF assms(3,4) this, of n "pendingTrials s"]
    obtain s3 evs where r:
      "processPending n env (pendingTrials s) (take_pending (adopt_row rid s1)) = Some s3"
      "initialized s3" "rowId s3 = rowId (take_pending (adopt_row rid s1))"
      "pendingTrials s3 = pendingTrials (take_pending (adopt_row rid s1))"
      "numberOfOperations s3 = numberOfOperations (take_pending (adopt_row rid s1)) + length (pendingTrials s)"
      "calls s3 = calls (take_pending (adopt_row rid s1)) @ evs"
      "persisted evs = map JObj (pendingTrials s)"
      "map kind_of evs = concat (map (\<lambda>t. [SELECT, UPDATE]) (pendingTrials s))"
      by blast
    with False show ?thesis
      unfolding ai by (intro exI[of _ "initialized_ok s3"] exI[of _ evs]) (simp add: s1_def)
  qed
qed

lemma addTrialData_settles:
  assumes sel: "\<forall>h e. sel_error (on_select env h) = Some e \<longrightarrow>
                  error_code e \<noteq> ''PGRST116''
                  \<and> \<not> (instance_of_Error e \<and> str_includes (error_message e) ''not found'')"
      and upd: "\<forall>h e. on_update env h = Some e \<longrightarrow>
                  \<not> (instance_of_Error e \<and> str_includes (error_message e) ''not found'')"
      and "initialized s" and "truthy_opt (rowId s)"
  shows "\<exists>out s'. addTrialData n env t s = Some (out, s')
            \<and> initialized s' \<and> rowId s' = rowId s"
proof (cases "sel_error (on_select env (calls s))")
  case (Some e)
  with sel have "error_code e \<noteq> ''PGRST116''"
    "\<not> (instance_of_Error e \<and> str_includes (error_message e) ''not found'')"
    by blast+
  from addTrialData_fetch_refused[OF assms(3,4) Some this, of n t] show ?thesis by blast
next
  case None
  show ?thesis
  proof (cases "on_update env (calls s @ [SelectTrials (tableName s) (rowId s) (on_select env (calls s))])")
    case ok: None
    from addTrialData_succeeds[OF assms(3,4) None ok, of n t] show ?thesis by blast
  next
    case (Some e)
    with upd have "\<not> (instance_of_Error e \<and> str_includes (error_message e) ''not found'')"
      by blast
    from addTrialData_update_refused[OF assms(3,4) None Some this, of n t] show ?thesis by blast
  qed
qed

lemma processPending_settles:
  assumes sel: "\<forall>h e. sel_error (on_select env h) = Some e \<longrightarrow>
                  error_code e \<noteq> ''PGRST116''
                  \<and> \<not> (instance_of_Error e \<and> str_includes (error_message e) ''not found'')"
      and upd: "\<forall>h e. on_update env h = Some e \<longrightarrow>
                  \<not> (instance_of_Error e \<and> str_includes (error_message e) ''not found'')"
      and "initialized s" and "truthy_opt (rowId s)"
  shows "\<exists>s'. processPending n env ts s = Some s'"
  using assms(3,4)
proof (induction ts arbitrary: s)
  case Nil
  then show ?case by (simp add: processPending.simps)
next
  case (Cons t ts)
  from addTrialData_settles[OF sel upd Cons.prems, of n t] obtain out s1 where a:
    "addTrialData n env t s = Some (out, s1)" "initialized s1" "rowId s1 = rowId s"
    by blast
  show ?case
  proof (cases out)
    case Returned
    from Cons.IH[of s1] a Cons.prems Returned show ?thesis
      by (simp add: processPending.simps)
  next
    case (Threw e)
    from Cons.IH[of "say ERROR ''[SupabaseManager] Error processing pending trial:'' (ErrArg e) s1"]
      a Cons.prems Threw show ?thesis
      by (simp add: processPending.simps)
  qed
qed

lemma initializeExperiment_settles:
  assumes sel: "\<forall>h e. sel_error (on_select env h) = Some e \<longrightarrow>
                  error_code e \<noteq> ''PGRST116''
                  \<and> \<not> (instance_of_Error e \<and> str_includes (error_message e) ''not found'')"
      and upd: "\<forall>h e. on_update env h = Some e \<longrightarrow>
                  \<not> (instance_of_Error e \<and> str_includes (error_message e) ''not found'')"
  shows "\<exists>out s'. initializeExperiment n env a s = Some (out, s')"
proof (cases "initialized s \<and> truthy_opt (rowId s)")
  case True
  then show ?thesis
    by (cases "update_existing env a s") (simp add: initializeExperiment.simps)
next
  case False
  define reply where "reply = on_insert env (calls s)"
  define s1 where "s1 = s\<lparr>calls := calls s @ [Insert (tableName s) (insert_payload a s) reply]\<rparr>"
  have i: "initializeExperiment n env a s = after_insert n env (insert_payload a s) reply s"
    using False by (auto simp: initializeExperiment.simps reply_def)
  show ?thesis
  proof (cases "ins_error reply \<noteq> None \<or> returned_id reply = None")
    case True
    from after_insert_failed[OF True, of n env "insert_payload a s" s] show ?thesis
      unfolding i by blast
  next
    case ok: False
    then obtain rid where rid: "ins_error reply = None" "returned_id reply = Some rid" by auto
    have rdy: "initialized (take_pending (adopt_row rid s1))"
      "truthy_opt (rowId (take_pending (adopt_row rid s1)))"
      using returned_id_truthy[OF rid(2)] by (simp_all add: truthy_opt_def)
    from processPending_settles[OF sel upd rdy, of n "pendingTrials s"] obtain s3 where
      "processPending n env (pendingTrials s) (take_pending (adopt_row rid s1)) = Some s3"
      by blast
    then show ?thesis
      unfolding i using rid by (auto simp: after_insert.simps Let_def s1_def)
  qed
qed

lemma after_insert_threw_keeps_queue:
  assumes "after_insert n env payload reply s = Some (Threw e, s')"
  shows "pendingTrials s' = pendingTrials s"
proof (cases "ins_error reply \<noteq> None \<or> returned_id reply = None")
  case True
  from after_insert_failed[OF True, of n env payload s] assms show ?thesis by auto
next
  case False
  with assms show ?thesis
    by (auto simp: after_insert.simps Let_def split: option.splits if_splits)
qed

lemma initializeExperiment_threw_keeps_queue:
  assumes "\<not> initialized s" and "initializeExperiment n env a s = Some (Threw e, s')"
  shows "pendingTrials s' = pendingTrials s"
  using assms after_insert_threw_keeps_queue[of n env "insert_payload a s" "on_insert env (calls s)" s e s']
  by (simp add: initializeExperiment.simps)

lemma addTrialData_catch_threw_queue:
  assumes "addTrialData_catch n env t e s = Some (Threw e', s')"
  shows "pendingTrials s' = pendingTrials s \<or> pendingTrials s' = pendingTrials s @ [t]"
proof (cases "instance_of_Error e \<and> str_includes (error_message e) ''not found''")
  case True
  with assms obtain m where "n = Suc m"
    and i: "initializeExperiment m env []
              (forget_row t (say ERROR ''[SupabaseManager] Error storing trial data:'' (ErrArg e) s))
            = Some (Threw e', s')"
    by (cases n) (auto simp: addTrialData_catch.simps Let_def)
  from initializeExperiment_threw_keeps_queue[OF _ i] show ?thesis by simp
next
  case False
  with assms show ?thesis by (auto simp: addTrialData_catch.simps Let_def)
qed

lemma addTrialData_row_missing_threw_queue:
  assumes "initialized s" and "truthy_opt (rowId s)"
      and "sel_error (on_select env (calls s)) = Some fe" and "error_code fe = ''PGRST116''"
      and r: "addTrialData n env t s = Some (Threw e, s')"
  shows "pendingTrials s' = pendingTrials s @ [t] \<or> pendingTrials s' = pendingTrials s @ [t, t]"
proof -
  define s2 where "s2 = handleRlsError fe
                          (say ERROR ''[SupabaseManager] Error fetching current data:'' (ErrArg fe)
                             (snd (fetch_trials env s)))"
  have p2: "pendingTrials s2 = pendingTrials s" by (simp add: s2_def fetch_trials_def Let_def)
  from r assms(1-4) obtain m where m: "n = Suc m"
    and c: "(case initializeExperiment m env [] (forget_row t s2) of
               None \<Rightarrow> None
             | Some (Returned, s3) \<Rightarrow> Some (Returned, s3)
             | Some (Threw e, s3) \<Rightarrow> addTrialData_catch n env t e s3) = Some (Threw e, s')"
    by (cases n) (auto simp: addTrialData.simps s2_def fetch_trials_def Let_def)
  then obtain e3 s3 where i: "initializeExperiment m env [] (forget_row t s2) = Some (Threw e3, s3)"
    and k: "addTrialData_catch n env t e3 s3 = Some (Threw e, s')"
    by (auto split: option.splits outcome.splits)
  from initializeExperiment_threw_keeps_queue[OF _ i] p2
  have "pendingTrials s3 = pendingTrials s @ [t]" by simp
  with addTrialData_catch_threw_queue[OF k] show ?thesis by auto
qed

lemma replay_failures_simps [simp]:
  "replay_failures [] = []"
  "replay_failures (l # ls) = replay_failure l @ replay_failures ls"
  "replay_failures (xs @ ys) = replay_failures xs @ replay_failures ys"
  by (simp_all add: replay_failures_def)

lemmas fixture_defs =
  trial_t1_def trial_t2_def suppressed_trial_def no_options_def fresh_manager_def
  fixed_manager_def fresh_firebase_manager_def table_remote_def server_error_def
  row_missing_def refusing_remote_def silent_remote_def unreadable_remote_def
  row_lost_once_remote_def quiet_firebase_def failing_firebase_def
  network_error_def unwritable_remote_def first_read_missing_remote_def
  vanishing_row_remote_def
  SupabaseManager_def FirebaseManager_def DataManager_metadata_def
  truthy_opt_def obj_get_def spread_def

lemma fixed_manager_ready:
  "initialized fixed_manager" "truthy_opt (rowId fixed_manager)" "calls fixed_manager = []"
  "pendingTrials fixed_manager = []" "numberOfOperations fixed_manager = 0"
  "tableName fixed_manager = ''experiments''" "rowId fixed_manager = Some (JStr ''row-1'')"
  by (simp_all add: fixture_defs Let_def)

lemma fresh_manager_blank:
  "\<not> initialized fresh_manager" "rowId fresh_manager = None" "calls fresh_manager = []"
  "pendingTrials fresh_manager = []" "numberOfOperations fresh_manager = 0"
  "tableName fresh_manager = ''experiments''"
  by (simp_all add: fixture_defs Let_def)

lemma not_found_free:
  "\<not> str_includes ''fetch failed'' ''not found''"
  "\<not> str_includes ''upstream unavailable'' ''not found''"
  by simp_all

lemma queued_manager_fields:
  "\<not> initialized queued_manager" "rowId queued_manager = None" "calls queued_manager = []"
  "pendingTrials queued_manager = [trial_t1, trial_t2]" "numberOfOperations queued_manager = 0"
  "tableName queued_manager = ''experiments''"
  "addTrialData_seq 0 table_remote [trial_t1, trial_t2] fresh_manager
     = Some ([Returned, Returned], queued_manager)"
proof -
  from addTrialData_seq_uninitialized[OF fresh_manager_blank(1), of 0 table_remote "[trial_t1, trial_t2]"]
  obtain s1 where s1:
    "addTrialData_seq 0 table_remote [trial_t1, trial_t2] fresh_manager
       = Some (replicate (length [trial_t1, trial_t2]) Returned, s1)"
    "pendingTrials s1 = pendingTrials fresh_manager @ [trial_t1, trial_t2]"
    "calls s1 = calls fresh_manager" "\<not> initialized s1" "rowId s1 = rowId fresh_manager"
    "numberOfOperations s1 = numberOfOperations fresh_manager"
    "tableName s1 = tableName fresh_manager"
    by blast
  then have q: "queued_manager = s1" by (simp add: queued_manager_def)
  show "\<not> initialized queued_manager" "rowId queued_manager = None" "calls queued_manager = []"
    "pendingTrials queued_manager = [trial_t1, trial_t2]" "numberOfOperations queued_manager = 0"
    "tableName queued_manager = ''experiments''"
    "addTrialData_seq 0 table_remote [trial_t1, trial_t2] fresh_manager
       = Some ([Returned, Returned], queued_manager)"
    using s1 unfolding q by (simp_all add: fresh_manager_blank)
qed

lemma table_remote_healthy:
  "ins_error (on_insert table_remote h) = None"
  "returned_id (on_insert table_remote h) = Some (JStr ''row-7'')"
  "sel_error (on_select table_remote h) = None"
  "on_update table_remote h = None"
  by (simp_all add: table_remote_def returned_id_def obj_get_def)

lemmas run_defs =
  addTrialData.simps initializeExperiment.simps after_insert.simps processPending.simps
  addTrialData_catch.simps Let_def fetch_trials_def write_trials_def forget_row_def
  handleRlsError_def insert_payload_def returned_id_def adopt_row_def take_pending_def
  initialized_ok_def say_def init_catch_def describe_error_def new_Error_def
  update_existing_def update_payload_def

section \<open>Claims\<close>

text \<open>
  C1. The claim: the pre-send flattening turns every array at any depth into an
  index-keyed object, so that \<^verbatim>\<open>{a: [1, [2,3]], b: "x"}\<close> becomes
  \<^verbatim>\<open>{a: {0: 1, 1: {0: 2, 1: 3}}, b: "x"}\<close>. What the code computes: the elements of a
  converted array are stored as they are, so the inner array \<^verbatim>\<open>[2,3]\<close> stays an array, and
  \<^verbatim>\<open>{a: [[[1]]]}\<close> still holds an array directly inside an array after the call.
\<close>

theorem flattenNestedArrays_keeps_arrays_inside_arrays:
  "flattenNestedArrays [(''a'', JArr [JNum 1, JArr [JNum 2, JNum 3]]), (''b'', JStr ''x'')]
     = [(''a'', JObj [(''0'', JNum 1), (''1'', JArr [JNum 2, JNum 3])]), (''b'', JStr ''x'')]
   \<and> flattenNestedArrays [(''a'', JArr [JNum 1, JArr [JNum 2, JNum 3]]), (''b'', JStr ''x'')]
     \<noteq> [(''a'', JObj [(''0'', JNum 1), (''1'', JObj [(''0'', JNum 2), (''1'', JNum 3)])]),
        (''b'', JStr ''x'')]
   \<and> flattenNestedArrays [(''a'', JArr [JArr [JArr [JNum 1]]])]
     = [(''a'', JObj [(''0'', JArr [JArr [JNum 1]])])]"
  by (simp add: string_of_nat_0 string_of_nat_1)

text \<open>
  C2. The claim as stated fails. Two trials are queued on a manager without identity and
  the insert returns an identifier, but the first read of the replay reports the row
  missing: the first entry is re-queued, a second row is inserted, and the entry is
  replayed again, so the replay reads three times for two queued entries and the first
  entry is attempted twice.
\<close>

theorem row_missing_during_replay_attempts_an_entry_twice:
  "\<not> initialized queued_manager
   \<and> pendingTrials queued_manager = [trial_t1, trial_t2]
   \<and> ins_error (on_insert first_read_missing_remote []) = None
   \<and> returned_id (on_insert first_read_missing_remote []) = Some (JStr ''row-7'')
   \<and> map_option fst (initializeExperiment (Suc 0) first_read_missing_remote [] queued_manager)
       = Some Returned
   \<and> map_option (map kind_of \<circ> calls \<circ> snd)
         (initializeExperiment (Suc 0) first_read_missing_remote [] queued_manager)
       = Some [INSERT, SELECT, INSERT, SELECT, UPDATE, SELECT, UPDATE]
   \<and> map_option (persisted \<circ> calls \<circ> snd)
         (initializeExperiment (Suc 0) first_read_missing_remote [] queued_manager)
       = Some [JObj trial_t1, JObj trial_t2]"
  by (simp add: queued_manager_def run_defs fixture_defs)

text \<open>
  C2, amended. While the manager has no remote identity (it was built without a fixed
  identifier and no insert has answered with one yet), every \<^verbatim>\<open>addTrialData\<close> call of a
  sequence returns at once, appends its trial to the pending queue and issues no remote
  call; the state \<open>s1\<close> reached this way is also the one an insert in flight finds when it
  answers. When the insert answers with an identifier, the whole queue is handed to the
  replay, one round of \<^verbatim>\<open>addTrialData\<close> per queued entry with failures caught, in the order
  of arrival. When every read and write of the replay succeeds, the remote calls after
  the insert are exactly one read and one update per queued entry, the updates persist
  the entries in their original order, the queue ends empty and the manager holds the
  returned identifier.
\<close>

theorem queued_trials_are_replayed_in_order:
  assumes "\<not> initialized s" and "ins_error reply = None" and "returned_id reply = Some rid"
  shows "\<exists>s1. addTrialData_seq n env ts s = Some (replicate (length ts) Returned, s1)
     \<and> calls s1 = calls s \<and> pendingTrials s1 = pendingTrials s @ ts \<and> \<not> initialized s1
     \<and> initializeExperiment n env additionalData s1
         = after_insert n env (insert_payload additionalData s) (on_insert env (calls s)) s1
     \<and> after_insert n env payload reply s1 =
         map_option (\<lambda>s3. (Returned, initialized_ok s3))
           (foldl (attempt n env)
              (Some (if pendingTrials s @ ts = []
                     then adopt_row rid (s1\<lparr>calls := calls s1 @ [Insert (tableName s1) payload reply]\<rparr>)
                     else take_pending
                            (adopt_row rid (s1\<lparr>calls := calls s1 @ [Insert (tableName s1) payload reply]\<rparr>))))
              (pendingTrials s @ ts))
     \<and> ((\<forall>h. sel_error (on_select env h) = None) \<and> (\<forall>h. on_update env h = None) \<longrightarrow>
          (\<exists>s' evs. after_insert n env payload reply s1 = Some (Returned, s')
              \<and> pendingTrials s' = [] \<and> initialized s' \<and> rowId s' = Some rid
              \<and> calls s' = calls s @ Insert (tableName s) payload reply # evs
              \<and> persisted evs = map JObj (pendingTrials s @ ts)
              \<and> map kind_of evs = concat (map (\<lambda>t. [SELECT, UPDATE]) (pendingTrials s @ ts))))"
proof -
  from addTrialData_seq_uninitialized[OF assms(1), of n env ts] obtain s1 where s1:
    "addTrialData_seq n env ts s = Some (replicate (length ts) Returned, s1)"
    "pendingTrials s1 = pendingTrials s @ ts" "calls s1 = calls s" "\<not> initialized s1"
    "metadata s1 = metadata s" "tableName s1 = tableName s"
    by blast
  have i: "initializeExperiment n env additionalData s1
         = after_insert n env (insert_payload additionalData s) (on_insert env (calls s)) s1"
    using s1(3,4,5) by (simp add: initializeExperiment.simps insert_payload_def)
  have f: "after_insert n env payload reply s1 =
         map_option (\<lambda>s3. (Returned, initialized_ok s3))
           (foldl (attempt n env)
              (Some (if pendingTrials s @ ts = []
                     then adopt_row rid (s1\<lparr>calls := calls s1 @ [Insert (tableName s1) payload reply]\<rparr>)
                     else take_pending
                            (adopt_row rid (s1\<lparr>calls := calls s1 @ [Insert (tableName s1) payload reply]\<rparr>))))
              (pendingTrials s @ ts))"
    using after_insert_ok[OF assms(2,3), of n env payload s1] s1(2) by simp
  have g: "\<exists>s' evs. after_insert n env payload reply s1 = Some (Returned, s')
              \<and> pendingTrials s' = [] \<and> initialized s' \<and> rowId s' = Some rid
              \<and> calls s' = calls s @ Insert (tableName s) payload reply # evs
              \<and> persisted evs = map JObj (pendingTrials s @ ts)
              \<and> map kind_of evs = concat (map (\<lambda>t. [SELECT, UPDATE]) (pendingTrials s @ ts))"
    if "(\<forall>h. sel_error (on_select env h) = None) \<and> (\<forall>h. on_update env h = None)"
  proof -
    from that have ok: "\<forall>h. sel_error (on_select env h) = None" "\<forall>h. on_update env h = None"
      by simp_all
    from after_insert_replays_all[OF assms(2,3) ok, of n payload s1] s1(2,3,6)
    show ?thesis by auto
  qed
  show ?thesis
    by (rule exI[of _ s1]) (use s1(1-4) i f g in blast)
qed

theorem queued_trials_are_replayed_in_order_witness:
  "\<not> initialized fresh_manager
   \<and> ins_error (on_insert table_remote []) = None
   \<and> returned_id (on_insert table_remote []) = Some (JStr ''row-7'')
   \<and> (\<forall>h. sel_error (on_select table_remote h) = None)
   \<and> (\<forall>h. on_update table_remote h = None)
   \<and> (\<exists>s1. addTrialData_seq 0 table_remote [trial_t1, trial_t2] fresh_manager
               = Some ([Returned, Returned], s1)
          \<and> calls s1 = [] \<and> pendingTrials s1 = [trial_t1, trial_t2]
          \<and> initializeExperiment 0 table_remote [] s1
              = after_insert 0 table_remote (insert_payload [] fresh_manager)
                  (on_insert table_remote []) s1
          \<and> (\<exists>s' evs. after_insert 0 table_remote (insert_payload [] fresh_manager)
                          (on_insert table_remote []) s1 = Some (Returned, s')
                \<and> pendingTrials s' = [] \<and> initialized s' \<and> rowId s' = Some (JStr ''row-7'')
                \<and> calls s' = Insert ''experiments'' (insert_payload [] fresh_manager)
                                (on_insert table_remote []) # evs
                \<and> persisted evs = [JObj trial_t1, JObj trial_t2]
                \<and> map kind_of evs = [SELECT, UPDATE, SELECT, UPDATE]))"
proof -
  have h: "\<not> initialized fresh_manager" "ins_error (on_insert table_remote []) = None"
    "returned_id (on_insert table_remote []) = Some (JStr ''row-7'')"
    by (simp_all add: fresh_manager_blank table_remote_healthy)
  have ok: "(\<forall>h. sel_error (on_select table_remote h) = None) \<and> (\<forall>h. on_update table_remote h = None)"
    by (simp add: table_remote_healthy)
  from queued_trials_are_replayed_in_order[OF h, of 0 table_remote "[trial_t1, trial_t2]" "[]" "insert_payload [] fresh_manager"]
  obtain s1 where s1:
    "addTrialData_seq 0 table_remote [trial_t1, trial_t2] fresh_manager
       = Some (replicate (length [trial_t1, trial_t2]) Returned, s1)"
    "calls s1 = calls fresh_manager"
    "pendingTrials s1 = pendingTrials fresh_manager @ [trial_t1, trial_t2]"
    "initializeExperiment 0 table_remote [] s1
       = after_insert 0 table_remote (insert_payload [] fresh_manager)
           (on_insert table_remote (calls fresh_manager)) s1"
    "(\<forall>h. sel_error (on_select table_remote h) = None) \<and> (\<forall>h. on_update table_remote h = None) \<longrightarrow>
          (\<exists>s' evs. after_insert 0 table_remote (insert_payload [] fresh_manager)
                        (on_insert table_remote []) s1 = Some (Returned, s')
              \<and> pendingTrials s' = [] \<and> initialized s' \<and> rowId s' = Some (JStr ''row-7'')
              \<and> calls s' = calls fresh_manager @ Insert (tableName fresh_manager)
                     (insert_payload [] fresh_manager) (on_insert table_remote []) # evs
              \<and> persisted evs = map JObj (pendingTrials fresh_manager @ [trial_t1, trial_t2])
              \<and> map kind_of evs
                  = concat (map (\<lambda>t. [SELECT, UPDATE]) (pendingTrials fresh_manager @ [trial_t1, trial_t2])))"
    by (elim exE conjE) (rule that; assumption)
  from s1(5)[rule_format, OF ok]
  have r: "\<exists>s' evs. after_insert 0 table_remote (insert_payload [] fresh_manager)
                          (on_insert table_remote []) s1 = Some (Returned, s')
                \<and> pendingTrials s' = [] \<and> initialized s' \<and> rowId s' = Some (JStr ''row-7'')
                \<and> calls s' = Insert ''experiments'' (insert_payload [] fresh_manager)
                                (on_insert table_remote []) # evs
                \<and> persisted evs = [JObj trial_t1, JObj trial_t2]
                \<and> map kind_of evs = [SELECT, UPDATE, SELECT, UPDATE]"
    by (simp add: fresh_manager_blank)
  have e: "\<exists>s1. addTrialData_seq 0 table_remote [trial_t1, trial_t2] fresh_manager
               = Some ([Returned, Returned], s1)
          \<and> calls s1 = [] \<and> pendingTrials s1 = [trial_t1, trial_t2]
          \<and> initializeExperiment 0 table_remote [] s1
              = after_insert 0 table_remote (insert_payload [] fresh_manager)
                  (on_insert table_remote []) s1
          \<and> (\<exists>s' evs. after_insert 0 table_remote (insert_payload [] fresh_manager)
                          (on_insert table_remote []) s1 = Some (Returned, s')
                \<and> pendingTrials s' = [] \<and> initialized s' \<and> rowId s' = Some (JStr ''row-7'')
                \<and> calls s' = Insert ''experiments'' (insert_payload [] fresh_manager)
                                (on_insert table_remote []) # evs
                \<and> persisted evs = [JObj trial_t1, JObj trial_t2]
                \<and> map kind_of evs = [SELECT, UPDATE, SELECT, UPDATE])"
  proof (rule exI[of _ s1], intro conjI)
    show "\<exists>s' evs. after_insert 0 table_remote (insert_payload [] fresh_manager)
                          (on_insert table_remote []) s1 = Some (Returned, s')
                \<and> pendingTrials s' = [] \<and> initialized s' \<and> rowId s' = Some (JStr ''row-7'')
                \<and> calls s' = Insert ''experiments'' (insert_payload [] fresh_manager)
                                (on_insert table_remote []) # evs
                \<and> persisted evs = [JObj trial_t1, JObj trial_t2]
                \<and> map kind_of evs = [SELECT, UPDATE, SELECT, UPDATE]"
      by (rule r)
  qed (use s1(1-4) in \<open>simp_all add: fresh_manager_blank\<close>)
  from h ok e show ?thesis by (intro conjI) (simp_all only: simp_thms)
qed

text \<open>
  C3. The claim as stated fails: when the replay of a queued entry fails, the entry has
  already left the queue and is not put back, so it is neither persisted nor reported.
  Here two trials are queued, the insert succeeds, both reads of the replay fail: the
  call returns normally, the queue is empty, no update was sent, and the finish callback
  ends with the operation count and reports nothing as unprocessed.
\<close>

theorem failed_replay_loses_the_queued_trials:
  "pendingTrials queued_manager = [trial_t1, trial_t2]
   \<and> map_option fst (initializeExperiment 0 unreadable_remote [] queued_manager) = Some Returned
   \<and> map_option (pendingTrials \<circ> snd) (initializeExperiment 0 unreadable_remote [] queued_manager)
       = Some []
   \<and> map_option (map kind_of \<circ> calls \<circ> snd) (initializeExperiment 0 unreadable_remote [] queued_manager)
       = Some [INSERT, SELECT, SELECT]
   \<and> map_option (persisted \<circ> calls \<circ> snd) (initializeExperiment 0 unreadable_remote [] queued_manager)
       = Some []
   \<and> map_option (last \<circ> console \<circ> createFinishCallback \<circ> snd)
         (initializeExperiment 0 unreadable_remote [] queued_manager)
       = Some (Console LOG ''[SupabaseManager] Total operations performed:'' (NumArg 1))"
  by (simp add: queued_manager_def run_defs fixture_defs createFinishCallback_def
        getNumberOfOperations_def)

text \<open>
  C3, amended. As long as the manager has no remote identity, every accepted trial is
  appended to the pending queue, which therefore holds exactly the accepted trials in
  arrival order; an insert that fails or returns no identifier leaves the queue as it
  was; the finish callback leaves the queue as it was and, when it is not empty, reports
  its length as the number of unprocessed trials. When an insert returns an identifier
  and every read and write of the replay succeeds, the queue ends empty and the replay
  consists of one read and one update per queued entry, the updates persisting the
  entries in their original order.
\<close>

theorem pending_queue_is_kept_in_order_until_replayed:
  "(\<not> initialized s \<longrightarrow>
      (\<exists>s1. addTrialData_seq n env ts s = Some (replicate (length ts) Returned, s1)
          \<and> pendingTrials s1 = pendingTrials s @ ts \<and> calls s1 = calls s \<and> \<not> initialized s1))
   \<and> (\<not> (initialized s2 \<and> truthy_opt (rowId s2))
       \<and> (ins_error (on_insert env2 (calls s2)) \<noteq> None \<or> returned_id (on_insert env2 (calls s2)) = None) \<longrightarrow>
      (\<exists>e s'. initializeExperiment n2 env2 a2 s2 = Some (Threw e, s')
          \<and> pendingTrials s' = pendingTrials s2))
   \<and> pendingTrials (createFinishCallback s3) = pendingTrials s3
   \<and> (pendingTrials s3 \<noteq> [] \<longrightarrow>
        last (console (createFinishCallback s3))
          = Console WARN ''[SupabaseManager] Warning: trials were not processed''
              (NumArg (length (pendingTrials s3))))
   \<and> (\<not> (initialized s4 \<and> truthy_opt (rowId s4))
       \<and> ins_error (on_insert env4 (calls s4)) = None
       \<and> returned_id (on_insert env4 (calls s4)) = Some rid
       \<and> (\<forall>h. sel_error (on_select env4 h) = None) \<and> (\<forall>h. on_update env4 h = None) \<longrightarrow>
      (\<exists>s' evs. initializeExperiment n4 env4 a4 s4 = Some (Returned, s')
          \<and> pendingTrials s' = []
          \<and> calls s' = calls s4 @ Insert (tableName s4) (insert_payload a4 s4)
                                      (on_insert env4 (calls s4)) # evs
          \<and> persisted evs = map JObj (pendingTrials s4)
          \<and> map kind_of evs = concat (map (\<lambda>t. [SELECT, UPDATE]) (pendingTrials s4))))"
proof (intro conjI impI)
  assume "\<not> initialized s"
  from addTrialData_seq_uninitialized[OF this, of n env ts]
  show "\<exists>s1. addTrialData_seq n env ts s = Some (replicate (length ts) Returned, s1)
          \<and> pendingTrials s1 = pendingTrials s @ ts \<and> calls s1 = calls s \<and> \<not> initialized s1"
    by blast
next
  assume a: "\<not> (initialized s2 \<and> truthy_opt (rowId s2))
       \<and> (ins_error (on_insert env2 (calls s2)) \<noteq> None \<or> returned_id (on_insert env2 (calls s2)) = None)"
  then have f: "ins_error (on_insert env2 (calls s2)) \<noteq> None \<or> returned_id (on_insert env2 (calls s2)) = None"
    by simp
  from a after_insert_failed[OF f, of n2 env2 "insert_payload a2 s2" s2]
  show "\<exists>e s'. initializeExperiment n2 env2 a2 s2 = Some (Threw e, s')
          \<and> pendingTrials s' = pendingTrials s2"
    by (auto simp: initializeExperiment.simps)
next
  show "pendingTrials (createFinishCallback s3) = pendingTrials s3"
    by (rule createFinishCallback_reports)
next
  assume "pendingTrials s3 \<noteq> []"
  then show "last (console (createFinishCallback s3))
          = Console WARN ''[SupabaseManager] Warning: trials were not processed''
              (NumArg (length (pendingTrials s3)))"
    by (rule createFinishCallback_reports)
next
  assume a: "\<not> (initialized s4 \<and> truthy_opt (rowId s4))
       \<and> ins_error (on_insert env4 (calls s4)) = None
       \<and> returned_id (on_insert env4 (calls s4)) = Some rid
       \<and> (\<forall>h. sel_error (on_select env4 h) = None) \<and> (\<forall>h. on_update env4 h = None)"
  then have h: "\<not> (initialized s4 \<and> truthy_opt (rowId s4))"
    "ins_error (on_insert env4 (calls s4)) = None"
    "returned_id (on_insert env4 (calls s4)) = Some rid"
    "\<forall>h. sel_error (on_select env4 h) = None" "\<forall>h. on_update env4 h = None"
    by simp_all
  from initializeExperiment_replays_all[OF h, of n4 a4]
  show "\<exists>s' evs. initializeExperiment n4 env4 a4 s4 = Some (Returned, s')
          \<and> pendingTrials s' = []
          \<and> calls s' = calls s4 @ Insert (tableName s4) (insert_payload a4 s4)
                                      (on_insert env4 (calls s4)) # evs
          \<and> persisted evs = map JObj (pendingTrials s4)
          \<and> map kind_of evs = concat (map (\<lambda>t. [SELECT, UPDATE]) (pendingTrials s4))"
    by blast
qed

theorem pending_queue_is_kept_in_order_until_replayed_witness:
  "\<not> initialized fresh_manager
   \<and> (\<exists>s1. addTrialData_seq 0 table_remote [trial_t1, trial_t2] fresh_manager
               = Some ([Returned, Returned], s1)
          \<and> pendingTrials s1 = [trial_t1, trial_t2] \<and> calls s1 = [])
   \<and> \<not> (initialized queued_manager \<and> truthy_opt (rowId queued_manager))
   \<and> returned_id (on_insert silent_remote (calls queued_manager)) = None
   \<and> (\<exists>e s'. initializeExperiment 0 silent_remote [] queued_manager = Some (Threw e, s')
          \<and> pendingTrials s' = [trial_t1, trial_t2])
   \<and> pendingTrials (createFinishCallback queued_manager) = [trial_t1, trial_t2]
   \<and> pendingTrials queued_manager \<noteq> []
   \<and> last (console (createFinishCallback queued_manager))
        = Console WARN ''[SupabaseManager] Warning: trials were not processed'' (NumArg 2)
   \<and> ins_error (on_insert table_remote (calls queued_manager)) = None
   \<and> returned_id (on_insert table_remote (calls queued_manager)) = Some (JStr ''row-7'')
   \<and> (\<forall>h. sel_error (on_select table_remote h) = None)
   \<and> (\<forall>h. on_update table_remote h = None)
   \<and> (\<exists>s' evs. initializeExperiment 0 table_remote [] queued_manager = Some (Returned, s')
          \<and> pendingTrials s' = []
          \<and> calls s' = Insert ''experiments'' (insert_payload [] queued_manager)
                          (on_insert table_remote []) # evs
          \<and> persisted evs = [JObj trial_t1, JObj trial_t2]
          \<and> map kind_of evs = [SELECT, UPDATE, SELECT, UPDATE])"
proof -
  note T = pending_queue_is_kept_in_order_until_replayed [where s = fresh_manager and n = 0 and env = table_remote
                 and ts = "[trial_t1, trial_t2]"
                 and ?s2.0 = queued_manager and ?env2.0 = silent_remote and ?n2.0 = 0 and ?a2.0 = "[]"
                 and ?s3.0 = queued_manager
                 and ?s4.0 = queued_manager and ?env4.0 = table_remote and rid = "JStr ''row-7''"
                 and ?n4.0 = 0 and ?a4.0 = "[]"]
  have silent: "returned_id (on_insert silent_remote (calls queued_manager)) = None"
    by (simp add: silent_remote_def table_remote_def returned_id_def)
  have h2: "\<not> (initialized queued_manager \<and> truthy_opt (rowId queued_manager))
       \<and> (ins_error (on_insert silent_remote (calls queued_manager)) \<noteq> None
          \<or> returned_id (on_insert silent_remote (calls queued_manager)) = None)"
    using silent by (simp add: queued_manager_fields)
  have h4: "\<not> (initialized queued_manager \<and> truthy_opt (rowId queued_manager))
       \<and> ins_error (on_insert table_remote (calls queued_manager)) = None
       \<and> returned_id (on_insert table_remote (calls queued_manager)) = Some (JStr ''row-7'')
       \<and> (\<forall>h. sel_error (on_select table_remote h) = None) \<and> (\<forall>h. on_update table_remote h = None)"
    by (simp add: queued_manager_fields table_remote_healthy)
  have h3: "pendingTrials queued_manager \<noteq> []" by (simp add: queued_manager_fields)
  from T[THEN conjunct1, rule_format, OF fresh_manager_blank(1)]
  have c1: "\<exists>s1. addTrialData_seq 0 table_remote [trial_t1, trial_t2] fresh_manager
               = Some ([Returned, Returned], s1)
          \<and> pendingTrials s1 = [trial_t1, trial_t2] \<and> calls s1 = []"
    by (auto simp: fresh_manager_blank)
  from T[THEN conjunct2, THEN conjunct1, rule_format, OF h2]
  have c2: "\<exists>e s'. initializeExperiment 0 silent_remote [] queued_manager = Some (Threw e, s')
          \<and> pendingTrials s' = [trial_t1, trial_t2]"
    by (simp add: queued_manager_fields)
  from T[THEN conjunct2, THEN conjunct2, THEN conjunct1]
  have kept: "pendingTrials (createFinishCallback queued_manager) = [trial_t1, trial_t2]"
    by (simp add: queued_manager_fields)
  from T[THEN conjunct2, THEN conjunct2, THEN conjunct2, THEN conjunct1, rule_format, OF h3]
  have warned: "last (console (createFinishCallback queued_manager))
        = Console WARN ''[SupabaseManager] Warning: trials were not processed'' (NumArg 2)"
    by (simp add: queued_manager_fields)
  from T[THEN conjunct2, THEN conjunct2, THEN conjunct2, THEN conjunct2, rule_format, OF h4]
  have c5: "\<exists>s' evs. initializeExperiment 0 table_remote [] queued_manager = Some (Returned, s')
          \<and> pendingTrials s' = []
          \<and> calls s' = Insert ''experiments'' (insert_payload [] queued_manager)
                          (on_insert table_remote []) # evs
          \<and> persisted evs = [JObj trial_t1, JObj trial_t2]
          \<and> map kind_of evs = [SELECT, UPDATE, SELECT, UPDATE]"
    by (simp add: queued_manager_fields)
  from c1 c2 kept warned c5 h2 h3 h4 silent fresh_manager_blank(1) show ?thesis
    by (intro conjI) (simp_all only: simp_thms)
qed

text \<open>
  C4. The claim as stated fails: an insert that answers without error but without a
  row carrying an identifier is not counted. \<^verbatim>\<open>initializeExperiment\<close> throws before it
  reaches \<^verbatim>\<open>this.numberOfOperations++\<close>, and the counter stays at 0 after the insert.
\<close>

theorem insert_without_identifier_is_not_counted:
  "ins_error (on_insert silent_remote (calls fresh_manager)) = None
   \<and> map_option fst (initializeExperiment 0 silent_remote [] fresh_manager)
       = Some (Threw (new_Error
           ''Failed to initialize experiment data: Failed to get row ID from insert operation''))
   \<and> map_option (map kind_of \<circ> calls \<circ> snd) (initializeExperiment 0 silent_remote [] fresh_manager)
       = Some [INSERT]
   \<and> map_option (getNumberOfOperations \<circ> snd) (initializeExperiment 0 silent_remote [] fresh_manager)
       = Some 0"
  by (simp add: run_defs fixture_defs getNumberOfOperations_def)

text \<open>
  C4, amended. A counted write is an update that answered without error, or an insert
  that answered without error and with an identifier the manager could adopt. For every
  call of \<^verbatim>\<open>initializeExperiment\<close> or \<^verbatim>\<open>addTrialData\<close> that settles, the operation counter
  has grown by exactly the number of counted writes among the remote calls the call
  issued (replayed trials included), and a call that threw has left it unchanged. On a
  remote that never reports the row missing (no read fails with \<^verbatim>\<open>PGRST116\<close>, no read or
  write fails with an \<^verbatim>\<open>Error\<close> whose message contains \<^verbatim>\<open>not found\<close>) every such call
  settles, whatever the re-initialisation budget. The finish callback, which only reads,
  leaves the counter unchanged. In particular, for a manager built without a fixed
  identifier, two \<^verbatim>\<open>addTrialData\<close> calls followed by \<^verbatim>\<open>initializeExperiment({})\<close>, on a
  remote whose insert returns an identifier and whose reads and updates succeed, issue
  one insert and then a read and an update per trial in the original order, and
  \<^verbatim>\<open>getNumberOfOperations()\<close> is 3.
\<close>

theorem operation_counter_counts_each_counted_write_once:
  "(initializeExperiment n env a s = Some (out, s') \<longrightarrow>
      (\<exists>evs. calls s' = calls s @ evs
          \<and> getNumberOfOperations s' = getNumberOfOperations s + counted_writes evs
          \<and> (out = Returned \<or> getNumberOfOperations s' = getNumberOfOperations s)))
   \<and> (addTrialData n2 env2 t s2 = Some (out2, s2') \<longrightarrow>
      (\<exists>evs. calls s2' = calls s2 @ evs
          \<and> getNumberOfOperations s2' = getNumberOfOperations s2 + counted_writes evs
          \<and> (out2 = Returned \<or> getNumberOfOperations s2' = getNumberOfOperations s2)))
   \<and> ((\<forall>h e. sel_error (on_select env5 h) = Some e \<longrightarrow>
             error_code e \<noteq> ''PGRST116''
             \<and> \<not> (instance_of_Error e \<and> str_includes (error_message e) ''not found''))
       \<and> (\<forall>h e. on_update env5 h = Some e \<longrightarrow>
             \<not> (instance_of_Error e \<and> str_includes (error_message e) ''not found'')) \<longrightarrow>
        (\<exists>out s'. initializeExperiment n5 env5 a5 s5 = Some (out, s')))
   \<and> ((\<forall>h e. sel_error (on_select env6 h) = Some e \<longrightarrow>
             error_code e \<noteq> ''PGRST116''
             \<and> \<not> (instance_of_Error e \<and> str_includes (error_message e) ''not found''))
       \<and> (\<forall>h e. on_update env6 h = Some e \<longrightarrow>
             \<not> (instance_of_Error e \<and> str_includes (error_message e) ''not found''))
       \<and> (initialized s6 \<longrightarrow> truthy_opt (rowId s6)) \<longrightarrow>
        (\<exists>out s'. addTrialData n6 env6 t6 s6 = Some (out, s')))
   \<and> getNumberOfOperations (createFinishCallback s3) = getNumberOfOperations s3
   \<and> (opt_rowId options = None
       \<and> ins_error (on_insert env4 []) = None \<and> returned_id (on_insert env4 []) = Some rid
       \<and> (\<forall>h. sel_error (on_select env4 h) = None) \<and> (\<forall>h. on_update env4 h = None) \<longrightarrow>
      (\<exists>q r. addTrialData_seq 0 env4 [t1, t2] (SupabaseManager date time options)
                 = Some ([Returned, Returned], q)
          \<and> calls q = [] \<and> getNumberOfOperations q = 0
          \<and> initializeExperiment 0 env4 [] q = Some (Returned, r)
          \<and> map kind_of (calls r) = [INSERT, SELECT, UPDATE, SELECT, UPDATE]
          \<and> persisted (calls r) = [JObj t1, JObj t2]
          \<and> counted_writes (calls r) = 3
          \<and> getNumberOfOperations r = 3))"
proof (intro conjI impI)
  assume "initializeExperiment n env a s = Some (out, s')"
  from initializeExperiment_tallied[OF this]
  show "\<exists>evs. calls s' = calls s @ evs
          \<and> getNumberOfOperations s' = getNumberOfOperations s + counted_writes evs
          \<and> (out = Returned \<or> getNumberOfOperations s' = getNumberOfOperations s)"
    by (auto simp: tallied_iff getNumberOfOperations_def)
next
  assume "addTrialData n2 env2 t s2 = Some (out2, s2')"
  from addTrialData_tallied[OF this]
  show "\<exists>evs. calls s2' = calls s2 @ evs
          \<and> getNumberOfOperations s2' = getNumberOfOperations s2 + counted_writes evs
          \<and> (out2 = Returned \<or> getNumberOfOperations s2' = getNumberOfOperations s2)"
    by (auto simp: tallied_iff getNumberOfOperations_def)
next
  assume a: "(\<forall>h e. sel_error (on_select env5 h) = Some e \<longrightarrow>
             error_code e \<noteq> ''PGRST116''
             \<and> \<not> (instance_of_Error e \<and> str_includes (error_message e) ''not found''))
       \<and> (\<forall>h e. on_update env5 h = Some e \<longrightarrow>
             \<not> (instance_of_Error e \<and> str_includes (error_message e) ''not found''))"
  show "\<exists>out s'. initializeExperiment n5 env5 a5 s5 = Some (out, s')"
    by (rule initializeExperiment_settles[OF a[THEN conjunct1] a[THEN conjunct2]])
next
  assume a: "(\<forall>h e. sel_error (on_select env6 h) = Some e \<longrightarrow>
             error_code e \<noteq> ''PGRST116''
             \<and> \<not> (instance_of_Error e \<and> str_includes (error_message e) ''not found''))
       \<and> (\<forall>h e. on_update env6 h = Some e \<longrightarrow>
             \<not> (instance_of_Error e \<and> str_includes (error_message e) ''not found''))
       \<and> (initialized s6 \<longrightarrow> truthy_opt (rowId s6))"
  show "\<exists>out s'. addTrialData n6 env6 t6 s6 = Some (out, s')"
  proof (cases "initialized s6")
    case True
    with a have "truthy_opt (rowId s6)" by simp
    from addTrialData_settles[OF a[THEN conjunct1] a[THEN conjunct2, THEN conjunct1] True this, of n6 t6]
    show ?thesis by blast
  next
    case False
    then show ?thesis by (simp add: addTrialData_uninitialized)
  qed
next
  show "getNumberOfOperations (createFinishCallback s3) = getNumberOfOperations s3"
    by (simp add: getNumberOfOperations_def createFinishCallback_reports)
next
  assume a: "opt_rowId options = None
       \<and> ins_error (on_insert env4 []) = None \<and> returned_id (on_insert env4 []) = Some rid
       \<and> (\<forall>h. sel_error (on_select env4 h) = None) \<and> (\<forall>h. on_update env4 h = None)"
  define s0 where "s0 = SupabaseManager date time options"
  from a have s0: "\<not> initialized s0" "calls s0 = []" "pendingTrials s0 = []"
    "numberOfOperations s0 = 0"
    by (simp_all add: s0_def SupabaseManager_def Let_def truthy_opt_def)
  from addTrialData_seq_uninitialized[OF s0(1), of 0 env4 "[t1, t2]"] obtain q where q:
    "addTrialData_seq 0 env4 [t1, t2] s0 = Some (replicate (length [t1, t2]) Returned, q)"
    "pendingTrials q = pendingTrials s0 @ [t1, t2]" "calls q = calls s0" "\<not> initialized q"
    "numberOfOperations q = numberOfOperations s0"
    by blast
  have h: "\<not> (initialized q \<and> truthy_opt (rowId q))"
    "ins_error (on_insert env4 (calls q)) = None"
    "returned_id (on_insert env4 (calls q)) = Some rid"
    "\<forall>h. sel_error (on_select env4 h) = None" "\<forall>h. on_update env4 h = None"
    using a q(3,4) s0(2) by simp_all
  from initializeExperiment_replays_all[OF h, of 0 "[]"] obtain r evs where r:
    "initializeExperiment 0 env4 [] q = Some (Returned, r)"
    "calls r = calls q @ Insert (tableName q) (insert_payload [] q) (on_insert env4 (calls q)) # evs"
    "persisted evs = map JObj (pendingTrials q)"
    "map kind_of evs = concat (map (\<lambda>t. [SELECT, UPDATE]) (pendingTrials q))"
    "counted_writes evs = length (pendingTrials q)"
    "numberOfOperations r = numberOfOperations q + length (pendingTrials q) + 1"
    by blast
  show "\<exists>q r. addTrialData_seq 0 env4 [t1, t2] (SupabaseManager date time options)
                 = Some ([Returned, Returned], q)
          \<and> calls q = [] \<and> getNumberOfOperations q = 0
          \<and> initializeExperiment 0 env4 [] q = Some (Returned, r)
          \<and> map kind_of (calls r) = [INSERT, SELECT, UPDATE, SELECT, UPDATE]
          \<and> persisted (calls r) = [JObj t1, JObj t2]
          \<and> counted_writes (calls r) = 3
          \<and> getNumberOfOperations r = 3"
    using q r s0 h(2,3)
    by (intro exI[of _ q] exI[of _ r]) (simp add: s0_def[symmetric] getNumberOfOperations_def)
qed

theorem operation_counter_counts_each_counted_write_once_witness:
  "opt_rowId no_options = None
   \<and> ins_error (on_insert table_remote []) = None
   \<and> returned_id (on_insert table_remote []) = Some (JStr ''row-7'')
   \<and> (\<forall>h. sel_error (on_select table_remote h) = None)
   \<and> (\<forall>h. on_update table_remote h = None)
   \<and> (\<exists>q r. addTrialData_seq 0 table_remote [trial_t1, trial_t1]
                 (SupabaseManager ''2024-05-01'' ''09:30:00'' no_options)
                 = Some ([Returned, Returned], q)
          \<and> initializeExperiment 0 table_remote [] q = Some (Returned, r)
          \<and> map kind_of (calls r) = [INSERT, SELECT, UPDATE, SELECT, UPDATE]
          \<and> persisted (calls r) = [JObj trial_t1, JObj trial_t1]
          \<and> getNumberOfOperations r = 3
          \<and> (\<exists>evs. calls r = calls q @ evs
                \<and> getNumberOfOperations r = getNumberOfOperations q + counted_writes evs))
   \<and> (\<exists>s'. addTrialData 0 unwritable_remote trial_t1 fixed_manager
               = Some (Threw (new_Error ''Failed to store trial data: fetch failed''), s')
          \<and> getNumberOfOperations s' = getNumberOfOperations fixed_manager)
   \<and> (\<forall>h. sel_error (on_select unreadable_remote h) = Some server_error)
   \<and> error_code server_error \<noteq> ''PGRST116''
   \<and> \<not> (instance_of_Error server_error \<and> str_includes (error_message server_error) ''not found'')
   \<and> (\<forall>h. on_update unreadable_remote h = None)
   \<and> (\<exists>out s'. initializeExperiment 0 unreadable_remote [] queued_manager = Some (out, s'))
   \<and> truthy_opt (rowId fixed_manager)
   \<and> (\<exists>out s'. addTrialData 0 unreadable_remote trial_t1 fixed_manager = Some (out, s'))
   \<and> getNumberOfOperations (createFinishCallback queued_manager) = 0"
proof -
  have h: "opt_rowId no_options = None
       \<and> ins_error (on_insert table_remote []) = None
       \<and> returned_id (on_insert table_remote []) = Some (JStr ''row-7'')
       \<and> (\<forall>h. sel_error (on_select table_remote h) = None) \<and> (\<forall>h. on_update table_remote h = None)"
    by (simp add: table_remote_healthy no_options_def)
  from operation_counter_counts_each_counted_write_once[where ?env4.0 = table_remote and options = no_options and rid = "JStr ''row-7''"
            and ?t1.0 = trial_t1 and ?t2.0 = trial_t1 and date = "''2024-05-01''"
            and time = "''09:30:00''",
          THEN conjunct2, THEN conjunct2, THEN conjunct2, THEN conjunct2, THEN conjunct2,
          rule_format, OF h]
  obtain q r where qr:
    "addTrialData_seq 0 table_remote [trial_t1, trial_t1]
        (SupabaseManager ''2024-05-01'' ''09:30:00'' no_options) = Some ([Returned, Returned], q)"
    "initializeExperiment 0 table_remote [] q = Some (Returned, r)"
    "map kind_of (calls r) = [INSERT, SELECT, UPDATE, SELECT, UPDATE]"
    "persisted (calls r) = [JObj trial_t1, JObj trial_t1]"
    "getNumberOfOperations r = 3"
    by (elim exE conjE) (rule that; assumption)
  from operation_counter_counts_each_counted_write_once[where n = 0 and env = table_remote and a = "[]" and s = q and out = Returned and s' = r,
          THEN conjunct1, rule_format, OF qr(2)]
  have t1: "\<exists>evs. calls r = calls q @ evs
                \<and> getNumberOfOperations r = getNumberOfOperations q + counted_writes evs"
    by blast
  have e1: "\<exists>q r. addTrialData_seq 0 table_remote [trial_t1, trial_t1]
                 (SupabaseManager ''2024-05-01'' ''09:30:00'' no_options)
                 = Some ([Returned, Returned], q)
          \<and> initializeExperiment 0 table_remote [] q = Some (Returned, r)
          \<and> map kind_of (calls r) = [INSERT, SELECT, UPDATE, SELECT, UPDATE]
          \<and> persisted (calls r) = [JObj trial_t1, JObj trial_t1]
          \<and> getNumberOfOperations r = 3
          \<and> (\<exists>evs. calls r = calls q @ evs
                \<and> getNumberOfOperations r = getNumberOfOperations q + counted_writes evs)"
    by (rule exI[of _ q], rule exI[of _ r], intro conjI) (rule qr t1)+
  have u: "initialized fixed_manager" "truthy_opt (rowId fixed_manager)"
    "sel_error (on_select unwritable_remote (calls fixed_manager)) = None"
    "on_update unwritable_remote (calls fixed_manager @
         [SelectTrials (tableName fixed_manager) (rowId fixed_manager)
            (on_select unwritable_remote (calls fixed_manager))]) = Some network_error"
    "\<not> (instance_of_Error network_error \<and> str_includes (error_message network_error) ''not found'')"
    by (simp_all add: fixed_manager_ready unwritable_remote_def table_remote_def network_error_def
          truthy_opt_def)
  from addTrialData_update_refused[OF u, of 0 trial_t1] obtain s' where s':
    "addTrialData 0 unwritable_remote trial_t1 fixed_manager
       = Some (Threw (new_Error ''Failed to store trial data: fetch failed''), s')"
    by (auto simp: describe_error_def network_error_def)
  from operation_counter_counts_each_counted_write_once[where ?n2.0 = 0 and ?env2.0 = unwritable_remote and t = trial_t1 and ?s2.0 = fixed_manager
            and ?out2.0 = "Threw (new_Error ''Failed to store trial data: fetch failed'')"
            and ?s2' = s',
          THEN conjunct2, THEN conjunct1, rule_format, OF s']
  have t2: "getNumberOfOperations s' = getNumberOfOperations fixed_manager"
    by auto
  have e2: "\<exists>s'. addTrialData 0 unwritable_remote trial_t1 fixed_manager
               = Some (Threw (new_Error ''Failed to store trial data: fetch failed''), s')
          \<and> getNumberOfOperations s' = getNumberOfOperations fixed_manager"
    by (rule exI[of _ s'], intro conjI) (rule s' t2)+
  have calm: "\<forall>h. sel_error (on_select unreadable_remote h) = Some server_error"
    "error_code server_error \<noteq> ''PGRST116''"
    "\<not> (instance_of_Error server_error \<and> str_includes (error_message server_error) ''not found'')"
    "\<forall>h. on_update unreadable_remote h = None"
    by (simp_all add: unreadable_remote_def table_remote_def server_error_def)
  then have c5: "(\<forall>h e. sel_error (on_select unreadable_remote h) = Some e \<longrightarrow>
             error_code e \<noteq> ''PGRST116''
             \<and> \<not> (instance_of_Error e \<and> str_includes (error_message e) ''not found''))
       \<and> (\<forall>h e. on_update unreadable_remote h = Some e \<longrightarrow>
             \<not> (instance_of_Error e \<and> str_includes (error_message e) ''not found''))"
    by simp
  from operation_counter_counts_each_counted_write_once[where ?env5.0 = unreadable_remote and ?n5.0 = 0 and ?a5.0 = "[]" and ?s5.0 = queued_manager,
          THEN conjunct2, THEN conjunct2, THEN conjunct1, rule_format, OF c5]
  have e3: "\<exists>out s'. initializeExperiment 0 unreadable_remote [] queued_manager = Some (out, s')" .
  have c6: "(\<forall>h e. sel_error (on_select unreadable_remote h) = Some e \<longrightarrow>
             error_code e \<noteq> ''PGRST116''
             \<and> \<not> (instance_of_Error e \<and> str_includes (error_message e) ''not found''))
       \<and> (\<forall>h e. on_update unreadable_remote h = Some e \<longrightarrow>
             \<not> (instance_of_Error e \<and> str_includes (error_message e) ''not found''))
       \<and> (initialized fixed_manager \<longrightarrow> truthy_opt (rowId fixed_manager))"
    using c5 u(2) by simp
  from operation_counter_counts_each_counted_write_once[where ?env6.0 = unreadable_remote and ?n6.0 = 0 and ?t6.0 = trial_t1 and ?s6.0 = fixed_manager,
          THEN conjunct2, THEN conjunct2, THEN conjunct2, THEN conjunct1, rule_format, OF c6]
  have e4: "\<exists>out s'. addTrialData 0 unreadable_remote trial_t1 fixed_manager = Some (out, s')" .
  have t3: "getNumberOfOperations (createFinishCallback queued_manager) = 0"
    using operation_counter_counts_each_counted_write_once[where ?s3.0 = queued_manager, THEN conjunct2, THEN conjunct2, THEN conjunct2,
             THEN conjunct2, THEN conjunct1]
    by (simp add: getNumberOfOperations_def queued_manager_fields)
  from h e1 e2 calm e3 u(2) e4 t3 show ?thesis
    by (intro conjI) (simp_all only: simp_thms)
qed

text \<open>
  C5. For a trial whose \<^verbatim>\<open>no_upload\<close> flag is \<^verbatim>\<open>true\<close>, the function returned by
  \<^verbatim>\<open>createDataUpdateCallback\<close> (of either adapter) returns the object with the flag
  deleted and leaves the manager exactly as it was: no remote call is issued, nothing is
  queued, nothing is logged.
\<close>

theorem suppressed_trial_returned_without_flag_and_without_remote_call:
  assumes "obj_get data ''no_upload'' = Some (JBool True)"
  shows "createDataUpdateCallback n env data s = (obj_delete ''no_upload'' data, Some s)
       \<and> FirebaseManager_createDataUpdateCallback fenv data fs = (obj_delete ''no_upload'' data, fs)
       \<and> obj_get (obj_delete ''no_upload'' data) ''no_upload'' = None"
  using assms
  by (simp add: createDataUpdateCallback_def FirebaseManager_createDataUpdateCallback_def
        truthy_opt_def obj_get_delete)

theorem suppressed_trial_returned_without_flag_and_without_remote_call_witness:
  "obj_get suppressed_trial ''no_upload'' = Some (JBool True)
   \<and> createDataUpdateCallback 0 table_remote suppressed_trial fresh_manager
       = ([(''trial_type'', JStr ''t1'')], Some fresh_manager)
   \<and> FirebaseManager_createDataUpdateCallback quiet_firebase suppressed_trial fresh_firebase_manager
       = ([(''trial_type'', JStr ''t1'')], fresh_firebase_manager)"
  using suppressed_trial_returned_without_flag_and_without_remote_call
          [of suppressed_trial 0 table_remote fresh_manager quiet_firebase fresh_firebase_manager]
  by (simp add: suppressed_trial_def obj_get_def obj_delete_def)

text \<open>
  C6. The claim as stated fails: the update sent for a manager built with a fixed row
  identifier carries whatever the caller's overrides carry, a \<^verbatim>\<open>trials\<close> field included
  (\<^verbatim>\<open>additionalData\<close> is a \<^verbatim>\<open>Partial<ExperimentData>\<close>), and then the column is written.
\<close>

theorem fixed_id_initialize_can_write_trials_column:
  "map_option (calls \<circ> snd) (initializeExperiment 0 table_remote [(''trials'', JArr [])] fixed_manager)
     = Some [Update ''experiments''
               [(''date'', JStr ''2024-05-01''), (''time'', JStr ''09:30:00''),
                (''trials'', JArr []), (''updated_at'', JStr ''2024-05-01T09:30:05.000Z'')]
               (Some (JStr ''row-1'')) None]"
  by (simp add: initializeExperiment.simps update_existing_def update_payload_def fixture_defs Let_def)

text \<open>
  C6, amended. A manager constructed with a non-empty fixed row identifier is ready at
  once and has issued no remote call. \<^verbatim>\<open>initializeExperiment\<close> then issues exactly one
  remote call, an update of that row and no insert, whose payload is the metadata merged
  with the overrides plus the refreshed \<^verbatim>\<open>updated_at\<close>. The manager adds no \<^verbatim>\<open>trials\<close>
  field of its own: the payload has one exactly when the metadata or the overrides do.
\<close>

theorem fixed_id_initialize_issues_one_update:
  assumes "opt_rowId options = Some rid" and "rid \<noteq> []"
      and "s = SupabaseManager date time options"
  shows "isInitialized s \<and> calls s = [] \<and>
         (\<exists>out s'. initializeExperiment n env additionalData s = Some (out, s')
            \<and> calls s' = [Update (tableName s) (update_payload env additionalData s)
                            (Some (JStr rid)) (on_update env [])]
            \<and> update_payload env additionalData s
                = obj_set ''updated_at'' (JStr (now env []))
                    (spread (spread [] (metadata s)) additionalData)
            \<and> (obj_get (update_payload env additionalData s) ''trials'' = None
                 \<longleftrightarrow> obj_get (metadata s) ''trials'' = None
                     \<and> obj_get additionalData ''trials'' = None)
            \<and> (out = Returned \<longleftrightarrow> on_update env [] = None)
            \<and> pendingTrials s' = [] \<and> rowId s' = Some (JStr rid))"
proof -
  have s: "initialized s" "rowId s = Some (JStr rid)" "calls s = []" "pendingTrials s = []"
    using assms by (simp_all add: SupabaseManager_def Let_def truthy_opt_def)
  then have "isInitialized s" by (simp add: isInitialized_def truthy_opt_def assms(2))
  moreover have "initializeExperiment n env additionalData s = Some (update_existing env additionalData s)"
    using s assms(2) by (simp add: initializeExperiment.simps truthy_opt_def)
  moreover have "calls (snd (update_existing env additionalData s))
        = [Update (tableName s) (update_payload env additionalData s) (Some (JStr rid)) (on_update env [])]"
      "pendingTrials (snd (update_existing env additionalData s)) = []"
      "rowId (snd (update_existing env additionalData s)) = Some (JStr rid)"
      "fst (update_existing env additionalData s) = Returned \<longleftrightarrow> on_update env [] = None"
    using s by (auto simp: update_existing_def update_payload_def Let_def init_catch_def split: option.splits)
  moreover have "update_payload env additionalData s
                = obj_set ''updated_at'' (JStr (now env []))
                    (spread (spread [] (metadata s)) additionalData)"
    using s by (simp add: update_payload_def)
  ultimately show ?thesis
    using s(3) update_payload_trials[of env additionalData s]
    by (cases "update_existing env additionalData s") auto
qed

theorem fixed_id_initialize_issues_one_update_witness:
  "opt_rowId (no_options\<lparr>opt_rowId := Some ''row-1''\<rparr>) = Some ''row-1''
   \<and> ''row-1'' \<noteq> []
   \<and> fixed_manager = SupabaseManager ''2024-05-01'' ''09:30:00'' (no_options\<lparr>opt_rowId := Some ''row-1''\<rparr>)
   \<and> isInitialized fixed_manager \<and> calls fixed_manager = []
   \<and> (\<exists>out s'. initializeExperiment 0 table_remote [(''participantId'', JStr ''p1'')] fixed_manager
                  = Some (out, s')
          \<and> calls s' = [Update ''experiments''
                          [(''date'', JStr ''2024-05-01''), (''time'', JStr ''09:30:00''),
                           (''participantId'', JStr ''p1''),
                           (''updated_at'', JStr ''2024-05-01T09:30:05.000Z'')]
                          (Some (JStr ''row-1'')) None]
          \<and> out = Returned \<and> pendingTrials s' = [] \<and> rowId s' = Some (JStr ''row-1''))"
proof -
  have h: "opt_rowId (no_options\<lparr>opt_rowId := Some ''row-1''\<rparr>) = Some ''row-1''"
    "''row-1'' \<noteq> []"
    "fixed_manager = SupabaseManager ''2024-05-01'' ''09:30:00'' (no_options\<lparr>opt_rowId := Some ''row-1''\<rparr>)"
    by (simp_all add: fixed_manager_def)
  have e: "tableName fixed_manager = ''experiments''"
    "update_payload table_remote [(''participantId'', JStr ''p1'')] fixed_manager
       = [(''date'', JStr ''2024-05-01''), (''time'', JStr ''09:30:00''),
          (''participantId'', JStr ''p1''),
          (''updated_at'', JStr ''2024-05-01T09:30:05.000Z'')]"
    "on_update table_remote [] = None"
    by (simp_all add: fixture_defs update_payload_def Let_def)
  from fixed_id_initialize_issues_one_update[OF h, of 0 table_remote "[(''participantId'', JStr ''p1'')]"] obtain out s' where r:
    "isInitialized fixed_manager" "calls fixed_manager = []"
    "initializeExperiment 0 table_remote [(''participantId'', JStr ''p1'')] fixed_manager = Some (out, s')"
    "calls s' = [Update (tableName fixed_manager)
                   (update_payload table_remote [(''participantId'', JStr ''p1'')] fixed_manager)
                   (Some (JStr ''row-1'')) (on_update table_remote [])]"
    "(out = Returned) = (on_update table_remote [] = None)"
    "pendingTrials s' = []" "rowId s' = Some (JStr ''row-1'')"
    by (elim conjE exE) (rule that; assumption)
  have "out = Returned" using r(5) e(3) by simp
  show ?thesis
  proof (intro conjI exI[of _ out] exI[of _ s'])
    show "fixed_manager = SupabaseManager ''2024-05-01'' ''09:30:00'' (no_options\<lparr>opt_rowId := Some ''row-1''\<rparr>)"
      by (rule h(3))
  qed (use r e h(1,2) \<open>out = Returned\<close> in simp_all)
qed

text \<open>
  C7. When the read step of \<^verbatim>\<open>addTrialData\<close> answers with the row-not-found code
  (\<^verbatim>\<open>PGRST116\<close>), the manager clears its identifier, is no longer initialized, has the
  triggering trial appended to the pending queue, and calls \<^verbatim>\<open>initializeExperiment\<close> with
  no overrides; that call takes the insert branch, and when the insert returns an
  identifier it replays the queue, the re-queued trial included. The only remote call
  issued before the re-initialization is the failed read.
\<close>

theorem row_not_found_on_fetch_requeues_and_reinitializes:
  assumes "initialized s" and "truthy_opt (rowId s)"
      and "sel_error (on_select env (calls s)) = Some fetchError"
      and "error_code fetchError = ''PGRST116''"
  shows "\<exists>s1. rowId s1 = None \<and> \<not> initialized s1 \<and> \<not> isInitialized s1
            \<and> pendingTrials s1 = pendingTrials s @ [trialData]
            \<and> calls s1 = calls s @ [SelectTrials (tableName s) (rowId s) (on_select env (calls s))]
            \<and> numberOfOperations s1 = numberOfOperations s
            \<and> addTrialData (Suc m) env trialData s =
                (case initializeExperiment m env [] s1 of
                   None \<Rightarrow> None
                 | Some (Returned, s3) \<Rightarrow> Some (Returned, s3)
                 | Some (Threw e, s3) \<Rightarrow> addTrialData_catch (Suc m) env trialData e s3)
            \<and> initializeExperiment m env [] s1
                = after_insert m env (insert_payload [] s1) (on_insert env (calls s1)) s1
            \<and> (ins_error (on_insert env (calls s1)) = None
                \<and> returned_id (on_insert env (calls s1)) = Some rid \<longrightarrow>
                 initializeExperiment m env [] s1 =
                   map_option (\<lambda>s3. (Returned, initialized_ok s3))
                     (foldl (attempt m env)
                        (Some (take_pending (adopt_row rid
                           (s1\<lparr>calls := calls s1 @ [Insert (tableName s1) (insert_payload [] s1)
                                                      (on_insert env (calls s1))]\<rparr>))))
                        (pendingTrials s @ [trialData])))"
proof -
  define s1 where "s1 = forget_row trialData (handleRlsError fetchError
              (say ERROR ''[SupabaseManager] Error fetching current data:'' (ErrArg fetchError)
                 (snd (fetch_trials env s))))"
  have f: "rowId s1 = None" "\<not> initialized s1"
    "pendingTrials s1 = pendingTrials s @ [trialData]"
    "calls s1 = calls s @ [SelectTrials (tableName s) (rowId s) (on_select env (calls s))]"
    "numberOfOperations s1 = numberOfOperations s"
    by (simp_all add: s1_def fetch_trials_def Let_def)
  have a: "addTrialData (Suc m) env trialData s =
                (case initializeExperiment m env [] s1 of
                   None \<Rightarrow> None
                 | Some (Returned, s3) \<Rightarrow> Some (Returned, s3)
                 | Some (Threw e, s3) \<Rightarrow> addTrialData_catch (Suc m) env trialData e s3)"
    using assms by (simp add: addTrialData.simps[of "Suc m"] s1_def fetch_trials_def Let_def)
  have i: "initializeExperiment m env [] s1
                = after_insert m env (insert_payload [] s1) (on_insert env (calls s1)) s1"
    using f(2) by (simp add: initializeExperiment.simps[of m])
  have d: "initializeExperiment m env [] s1 =
                   map_option (\<lambda>s3. (Returned, initialized_ok s3))
                     (foldl (attempt m env)
                        (Some (take_pending (adopt_row rid
                           (s1\<lparr>calls := calls s1 @ [Insert (tableName s1) (insert_payload [] s1)
                                                      (on_insert env (calls s1))]\<rparr>))))
                        (pendingTrials s @ [trialData]))"
    if "ins_error (on_insert env (calls s1)) = None \<and> returned_id (on_insert env (calls s1)) = Some rid"
    using after_insert_ok[of "on_insert env (calls s1)" rid m env "insert_payload [] s1" s1] that f(3)
    unfolding i by simp
  show ?thesis
    using f a i d by (intro exI[of _ s1]) (simp add: isInitialized_def)
qed

theorem row_not_found_on_fetch_requeues_and_reinitializes_witness:
  "initialized fixed_manager \<and> truthy_opt (rowId fixed_manager)
   \<and> sel_error (on_select row_lost_once_remote (calls fixed_manager)) = Some row_missing
   \<and> error_code row_missing = ''PGRST116''
   \<and> (\<exists>s1. rowId s1 = None \<and> \<not> initialized s1
            \<and> pendingTrials s1 = [trial_t1]
            \<and> map kind_of (calls s1) = [SELECT]
            \<and> ins_error (on_insert row_lost_once_remote (calls s1)) = None
            \<and> returned_id (on_insert row_lost_once_remote (calls s1)) = Some (JStr ''row-7'')
            \<and> addTrialData (Suc 0) row_lost_once_remote trial_t1 fixed_manager =
                (case initializeExperiment 0 row_lost_once_remote [] s1 of
                   None \<Rightarrow> None
                 | Some (Returned, s3) \<Rightarrow> Some (Returned, s3)
                 | Some (Threw e, s3) \<Rightarrow> addTrialData_catch (Suc 0) row_lost_once_remote trial_t1 e s3)
            \<and> initializeExperiment 0 row_lost_once_remote [] s1 =
                   map_option (\<lambda>s3. (Returned, initialized_ok s3))
                     (foldl (attempt 0 row_lost_once_remote)
                        (Some (take_pending (adopt_row (JStr ''row-7'')
                           (s1\<lparr>calls := calls s1 @ [Insert (tableName s1) (insert_payload [] s1)
                                                      (on_insert row_lost_once_remote (calls s1))]\<rparr>))))
                        [trial_t1]))
   \<and> map_option fst (addTrialData (Suc 0) row_lost_once_remote trial_t1 fixed_manager) = Some Returned
   \<and> map_option (map kind_of \<circ> calls \<circ> snd)
        (addTrialData (Suc 0) row_lost_once_remote trial_t1 fixed_manager)
       = Some [SELECT, INSERT, SELECT, UPDATE]"
proof -
  have h: "initialized fixed_manager" "truthy_opt (rowId fixed_manager)"
    "sel_error (on_select row_lost_once_remote (calls fixed_manager)) = Some row_missing"
    "error_code row_missing = ''PGRST116''"
    and p: "pendingTrials fixed_manager = []" "calls fixed_manager = []"
    by (simp_all add: fixed_manager_ready truthy_opt_def row_lost_once_remote_def row_missing_def)
  have ins: "\<And>h. ins_error (on_insert row_lost_once_remote h) = None"
    "\<And>h. returned_id (on_insert row_lost_once_remote h) = Some (JStr ''row-7'')"
    by (simp_all add: row_lost_once_remote_def table_remote_def returned_id_def obj_get_def)
  from row_not_found_on_fetch_requeues_and_reinitializes[OF h, of trial_t1 0 "JStr ''row-7''"] obtain s1 where s1:
    "rowId s1 = None" "\<not> initialized s1"
    "pendingTrials s1 = pendingTrials fixed_manager @ [trial_t1]"
    "calls s1 = calls fixed_manager @ [SelectTrials (tableName fixed_manager) (rowId fixed_manager)
                 (on_select row_lost_once_remote (calls fixed_manager))]"
    "addTrialData (Suc 0) row_lost_once_remote trial_t1 fixed_manager =
                (case initializeExperiment 0 row_lost_once_remote [] s1 of
                   None \<Rightarrow> None
                 | Some (Returned, s3) \<Rightarrow> Some (Returned, s3)
                 | Some (Threw e, s3) \<Rightarrow> addTrialData_catch (Suc 0) row_lost_once_remote trial_t1 e s3)"
    "ins_error (on_insert row_lost_once_remote (calls s1)) = None
                \<and> returned_id (on_insert row_lost_once_remote (calls s1)) = Some (JStr ''row-7'') \<longrightarrow>
                 initializeExperiment 0 row_lost_once_remote [] s1 =
                   map_option (\<lambda>s3. (Returned, initialized_ok s3))
                     (foldl (attempt 0 row_lost_once_remote)
                        (Some (take_pending (adopt_row (JStr ''row-7'')
                           (s1\<lparr>calls := calls s1 @ [Insert (tableName s1) (insert_payload [] s1)
                                                      (on_insert row_lost_once_remote (calls s1))]\<rparr>))))
                        (pendingTrials fixed_manager @ [trial_t1]))"
    by (elim exE conjE) (rule that; assumption)
  have run: "map_option fst (addTrialData (Suc 0) row_lost_once_remote trial_t1 fixed_manager) = Some Returned"
    "map_option (map kind_of \<circ> calls \<circ> snd)
        (addTrialData (Suc 0) row_lost_once_remote trial_t1 fixed_manager)
       = Some [SELECT, INSERT, SELECT, UPDATE]"
    by (simp_all add: run_defs fixture_defs)
  show ?thesis
  proof (intro conjI exI[of _ s1])
    show "initializeExperiment 0 row_lost_once_remote [] s1 =
                   map_option (\<lambda>s3. (Returned, initialized_ok s3))
                     (foldl (attempt 0 row_lost_once_remote)
                        (Some (take_pending (adopt_row (JStr ''row-7'')
                           (s1\<lparr>calls := calls s1 @ [Insert (tableName s1) (insert_payload [] s1)
                                                      (on_insert row_lost_once_remote (calls s1))]\<rparr>))))
                        [trial_t1])"
      using s1(6) ins p by (simp del: foldl_Cons)
  qed (use h p s1(1-5) ins run in simp_all)
qed

text \<open>
  C8. The claim as stated fails. Two trials are queued and the insert returns an
  identifier; the read of the first replayed entry reports the row missing, so the entry
  is re-queued by the recovery, and the recovery's own insert is refused. The failure of
  the entry is caught and logged by the replay loop, the loop goes on, and the failed
  entry is in the queue at the end.
\<close>

theorem failed_replay_after_row_missing_leaves_entry_queued:
  "pendingTrials queued_manager = [trial_t1, trial_t2]
   \<and> map_option fst (initializeExperiment (Suc 0) vanishing_row_remote [] queued_manager)
       = Some Returned
   \<and> map_option (map kind_of \<circ> calls \<circ> snd)
        (initializeExperiment (Suc 0) vanishing_row_remote [] queued_manager)
       = Some [INSERT, SELECT, INSERT]
   \<and> map_option (replay_failures \<circ> console \<circ> snd)
        (initializeExperiment (Suc 0) vanishing_row_remote [] queued_manager)
       = Some [new_Error
           ''Failed to store trial data: Failed to initialize experiment data: [object Object]'']
   \<and> map_option (pendingTrials \<circ> snd)
        (initializeExperiment (Suc 0) vanishing_row_remote [] queued_manager)
       = Some [trial_t1, trial_t2]"
  by (simp add: queued_manager_def run_defs fixture_defs)

text \<open>
  C8, amended. In the replay loop, when the \<^verbatim>\<open>addTrialData\<close> of one queued entry throws,
  the error is caught and written to the console for that entry and the loop goes on
  with the entries after it; the handler itself leaves the pending queue as
  \<^verbatim>\<open>addTrialData\<close> left it. The failed entry is not re-queued (the queue is the one from
  before the attempt) when the failure is a read failing with a code other than
  \<^verbatim>\<open>PGRST116\<close>, or a write failing, in both cases with an error that is not an \<^verbatim>\<open>Error\<close>
  whose message contains \<^verbatim>\<open>not found\<close>. When the read of the failed attempt reported the
  row missing (\<^verbatim>\<open>PGRST116\<close>), the recovery had re-queued the entry before it failed, and
  the entry stays in the queue.
\<close>

theorem failed_replay_is_logged_and_drain_continues:
  assumes "processPending n env earlier s = Some s1"
      and "addTrialData n env trial s1 = Some (Threw e, s2)"
  shows "processPending n env (earlier @ trial # later) s
           = processPending n env later
               (say ERROR ''[SupabaseManager] Error processing pending trial:'' (ErrArg e) s2)
       \<and> pendingTrials (say ERROR ''[SupabaseManager] Error processing pending trial:'' (ErrArg e) s2)
           = pendingTrials s2
       \<and> replay_failures
           (console (say ERROR ''[SupabaseManager] Error processing pending trial:'' (ErrArg e) s2))
           = replay_failures (console s2) @ [e]
       \<and> (initialized s1 \<and> truthy_opt (rowId s1)
            \<and> sel_error (on_select env (calls s1)) = Some fe
            \<and> error_code fe \<noteq> ''PGRST116''
            \<and> \<not> (instance_of_Error fe \<and> str_includes (error_message fe) ''not found'')
          \<longrightarrow> pendingTrials s2 = pendingTrials s1)
       \<and> (initialized s1 \<and> truthy_opt (rowId s1)
            \<and> sel_error (on_select env (calls s1)) = None
            \<and> on_update env (calls s1 @ [SelectTrials (tableName s1) (rowId s1)
                                            (on_select env (calls s1))]) = Some ue
            \<and> \<not> (instance_of_Error ue \<and> str_includes (error_message ue) ''not found'')
          \<longrightarrow> pendingTrials s2 = pendingTrials s1)
       \<and> (initialized s1 \<and> truthy_opt (rowId s1)
            \<and> sel_error (on_select env (calls s1)) = Some me
            \<and> error_code me = ''PGRST116''
          \<longrightarrow> pendingTrials s2 = pendingTrials s1 @ [trial]
              \<or> pendingTrials s2 = pendingTrials s1 @ [trial, trial])"
proof (intro conjI impI)
  show "processPending n env (earlier @ trial # later) s
           = processPending n env later
               (say ERROR ''[SupabaseManager] Error processing pending trial:'' (ErrArg e) s2)"
    using assms by (simp add: processPending_append processPending.simps)
next
  assume "initialized s1 \<and> truthy_opt (rowId s1)
            \<and> sel_error (on_select env (calls s1)) = Some fe
            \<and> error_code fe \<noteq> ''PGRST116''
            \<and> \<not> (instance_of_Error fe \<and> str_includes (error_message fe) ''not found'')"
  then have h: "initialized s1" "truthy_opt (rowId s1)"
    "sel_error (on_select env (calls s1)) = Some fe" "error_code fe \<noteq> ''PGRST116''"
    "\<not> (instance_of_Error fe \<and> str_includes (error_message fe) ''not found'')"
    by simp_all
  from addTrialData_fetch_refused[OF h, of n trial] assms(2)
  show "pendingTrials s2 = pendingTrials s1" by auto
next
  assume "initialized s1 \<and> truthy_opt (rowId s1)
            \<and> sel_error (on_select env (calls s1)) = None
            \<and> on_update env (calls s1 @ [SelectTrials (tableName s1) (rowId s1)
                                            (on_select env (calls s1))]) = Some ue
            \<and> \<not> (instance_of_Error ue \<and> str_includes (error_message ue) ''not found'')"
  then have h: "initialized s1" "truthy_opt (rowId s1)"
    "sel_error (on_select env (calls s1)) = None"
    "on_update env (calls s1 @ [SelectTrials (tableName s1) (rowId s1)
                                            (on_select env (calls s1))]) = Some ue"
    "\<not> (instance_of_Error ue \<and> str_includes (error_message ue) ''not found'')"
    by simp_all
  from addTrialData_update_refused[OF h, of n trial] assms(2)
  show "pendingTrials s2 = pendingTrials s1" by auto
next
  assume "initialized s1 \<and> truthy_opt (rowId s1)
            \<and> sel_error (on_select env (calls s1)) = Some me
            \<and> error_code me = ''PGRST116''"
  then have h: "initialized s1" "truthy_opt (rowId s1)"
    "sel_error (on_select env (calls s1)) = Some me" "error_code me = ''PGRST116''"
    by simp_all
  from addTrialData_row_missing_threw_queue[OF h assms(2)]
  show "pendingTrials s2 = pendingTrials s1 @ [trial]
              \<or> pendingTrials s2 = pendingTrials s1 @ [trial, trial]" .
qed simp_all

theorem failed_replay_is_logged_and_drain_continues_witness:
  "processPending 0 unreadable_remote [] fixed_manager = Some fixed_manager
   \<and> map_option fst (addTrialData 0 unreadable_remote trial_t1 fixed_manager)
       = Some (Threw (new_Error ''Failed to store trial data: [object Object]''))
   \<and> processPending 0 unreadable_remote ([] @ trial_t1 # [trial_t2]) fixed_manager
       = processPending 0 unreadable_remote [trial_t2]
           (say ERROR ''[SupabaseManager] Error processing pending trial:''
              (ErrArg (new_Error ''Failed to store trial data: [object Object]''))
              (snd (the (addTrialData 0 unreadable_remote trial_t1 fixed_manager))))
   \<and> initialized fixed_manager \<and> truthy_opt (rowId fixed_manager)
   \<and> sel_error (on_select unreadable_remote (calls fixed_manager)) = Some server_error
   \<and> error_code server_error \<noteq> ''PGRST116''
   \<and> \<not> (instance_of_Error server_error \<and> str_includes (error_message server_error) ''not found'')
   \<and> pendingTrials (snd (the (addTrialData 0 unreadable_remote trial_t1 fixed_manager)))
       = pendingTrials fixed_manager
   \<and> map_option pendingTrials (processPending 0 unreadable_remote [trial_t1, trial_t2] fixed_manager)
       = Some []
   \<and> map_option (replay_failures \<circ> console)
        (processPending 0 unreadable_remote [trial_t1, trial_t2] fixed_manager)
       = Some [new_Error ''Failed to store trial data: [object Object]'',
               new_Error ''Failed to store trial data: [object Object]'']
   \<and> map_option (map kind_of \<circ> calls) (processPending 0 unreadable_remote [trial_t1, trial_t2] fixed_manager)
       = Some [SELECT, SELECT]
   \<and> processPending 0 unwritable_remote [] fixed_manager = Some fixed_manager
   \<and> map_option fst (addTrialData 0 unwritable_remote trial_t1 fixed_manager)
       = Some (Threw (new_Error ''Failed to store trial data: fetch failed''))
   \<and> sel_error (on_select unwritable_remote (calls fixed_manager)) = None
   \<and> on_update unwritable_remote (calls fixed_manager @
         [SelectTrials (tableName fixed_manager) (rowId fixed_manager)
            (on_select unwritable_remote (calls fixed_manager))]) = Some network_error
   \<and> \<not> (instance_of_Error network_error \<and> str_includes (error_message network_error) ''not found'')
   \<and> pendingTrials (snd (the (addTrialData 0 unwritable_remote trial_t1 fixed_manager)))
       = pendingTrials fixed_manager
   \<and> processPending (Suc 0) vanishing_row_remote [] fixed_manager = Some fixed_manager
   \<and> map_option fst (addTrialData (Suc 0) vanishing_row_remote trial_t1 fixed_manager)
       = Some (Threw (new_Error
           ''Failed to store trial data: Failed to initialize experiment data: [object Object]''))
   \<and> sel_error (on_select vanishing_row_remote (calls fixed_manager)) = Some row_missing
   \<and> error_code row_missing = ''PGRST116''
   \<and> pendingTrials (snd (the (addTrialData (Suc 0) vanishing_row_remote trial_t1 fixed_manager)))
       = pendingTrials fixed_manager @ [trial_t1]"
proof -
  have ev: "initialized fixed_manager" "truthy_opt (rowId fixed_manager)"
    "pendingTrials fixed_manager = []" "calls fixed_manager = []"
    by (simp_all add: fixed_manager_ready truthy_opt_def)
  have a: "\<And>n env. processPending n env [] fixed_manager = Some fixed_manager"
    by (simp add: processPending.simps)
  \<comment> \<open>a failed read\<close>
  have sel: "\<And>h. on_select unreadable_remote h = SelectReply None (Some server_error)"
    by (simp add: unreadable_remote_def table_remote_def)
  have add: "\<And>t s. initialized s \<Longrightarrow> truthy_opt (rowId s) \<Longrightarrow>
     addTrialData 0 unreadable_remote t s =
       Some (Threw (new_Error ''Failed to store trial data: [object Object]''),
             say ERROR ''[SupabaseManager] Error storing trial data:'' (ErrArg server_error)
               (say ERROR ''[SupabaseManager] Error fetching current data:'' (ErrArg server_error)
                  (s\<lparr>calls := calls s @ [SelectTrials (tableName s) (rowId s)
                                             (SelectReply None (Some server_error))]\<rparr>)))"
    by (simp add: addTrialData.simps addTrialData_catch.simps fetch_trials_def sel Let_def
          handleRlsError_def server_error_def describe_error_def)
  have b1: "addTrialData 0 unreadable_remote trial_t1 fixed_manager
     = Some (Threw (new_Error ''Failed to store trial data: [object Object]''),
             snd (the (addTrialData 0 unreadable_remote trial_t1 fixed_manager)))"
    using ev by (simp add: add)
  have b1': "map_option fst (addTrialData 0 unreadable_remote trial_t1 fixed_manager)
       = Some (Threw (new_Error ''Failed to store trial data: [object Object]''))"
    using ev by (simp add: add)
  have fin: "map_option pendingTrials (processPending 0 unreadable_remote [trial_t1, trial_t2] fixed_manager) = Some []"
    "map_option (replay_failures \<circ> console)
        (processPending 0 unreadable_remote [trial_t1, trial_t2] fixed_manager)
       = Some [new_Error ''Failed to store trial data: [object Object]'',
               new_Error ''Failed to store trial data: [object Object]'']"
    "map_option (map kind_of \<circ> calls) (processPending 0 unreadable_remote [trial_t1, trial_t2] fixed_manager) = Some [SELECT, SELECT]"
    using ev by (simp_all add: processPending.simps add fixed_manager_def SupabaseManager_def
                   Let_def no_options_def)
  have h1: "initialized fixed_manager \<and> truthy_opt (rowId fixed_manager)
            \<and> sel_error (on_select unreadable_remote (calls fixed_manager)) = Some server_error
            \<and> error_code server_error \<noteq> ''PGRST116''
            \<and> \<not> (instance_of_Error server_error \<and> str_includes (error_message server_error) ''not found'')"
    using ev by (simp add: sel server_error_def)
  note T1 = failed_replay_is_logged_and_drain_continues[OF a b1, of "[trial_t2]" server_error]
  from T1[THEN conjunct2, THEN conjunct2, THEN conjunct2, THEN conjunct1, rule_format, OF h1]
  have q1: "pendingTrials (snd (the (addTrialData 0 unreadable_remote trial_t1 fixed_manager)))
       = pendingTrials fixed_manager" .
  \<comment> \<open>a failed write\<close>
  have h2: "initialized fixed_manager \<and> truthy_opt (rowId fixed_manager)
        \<and> sel_error (on_select unwritable_remote (calls fixed_manager)) = None
        \<and> on_update unwritable_remote (calls fixed_manager @
             [SelectTrials (tableName fixed_manager) (rowId fixed_manager)
                (on_select unwritable_remote (calls fixed_manager))]) = Some network_error
        \<and> \<not> (instance_of_Error network_error \<and> str_includes (error_message network_error) ''not found'')"
    using ev by (simp add: unwritable_remote_def table_remote_def network_error_def)
  have b2': "map_option fst (addTrialData 0 unwritable_remote trial_t1 fixed_manager)
       = Some (Threw (new_Error ''Failed to store trial data: fetch failed''))"
    by (simp add: run_defs fixture_defs)
  then have b2: "addTrialData 0 unwritable_remote trial_t1 fixed_manager
     = Some (Threw (new_Error ''Failed to store trial data: fetch failed''),
             snd (the (addTrialData 0 unwritable_remote trial_t1 fixed_manager)))"
    by (cases "addTrialData 0 unwritable_remote trial_t1 fixed_manager") auto
  note T2 = failed_replay_is_logged_and_drain_continues[OF a b2, of "[]" _ network_error]
  from T2[THEN conjunct2, THEN conjunct2, THEN conjunct2, THEN conjunct2, THEN conjunct1,
          rule_format, OF h2]
  have q2: "pendingTrials (snd (the (addTrialData 0 unwritable_remote trial_t1 fixed_manager)))
       = pendingTrials fixed_manager" .
  \<comment> \<open>a read reporting the row missing, with a failing recovery\<close>
  have run3: "map_option fst (addTrialData (Suc 0) vanishing_row_remote trial_t1 fixed_manager)
       = Some (Threw (new_Error
           ''Failed to store trial data: Failed to initialize experiment data: [object Object]''))"
    "map_option (pendingTrials \<circ> snd) (addTrialData (Suc 0) vanishing_row_remote trial_t1 fixed_manager)
       = Some [trial_t1]"
    by (simp_all add: run_defs fixture_defs)
  then have b3: "addTrialData (Suc 0) vanishing_row_remote trial_t1 fixed_manager
     = Some (Threw (new_Error
           ''Failed to store trial data: Failed to initialize experiment data: [object Object]''),
             snd (the (addTrialData (Suc 0) vanishing_row_remote trial_t1 fixed_manager)))"
    by (cases "addTrialData (Suc 0) vanishing_row_remote trial_t1 fixed_manager") auto
  have h3: "initialized fixed_manager \<and> truthy_opt (rowId fixed_manager)
            \<and> sel_error (on_select vanishing_row_remote (calls fixed_manager)) = Some row_missing
            \<and> error_code row_missing = ''PGRST116''"
    using ev by (simp add: vanishing_row_remote_def table_remote_def row_missing_def)
  note T3 = failed_replay_is_logged_and_drain_continues[OF a b3, of "[]" _ _ row_missing]
  from T3[THEN conjunct2, THEN conjunct2, THEN conjunct2, THEN conjunct2, THEN conjunct2,
          rule_format, OF h3] run3(2) b3
  have q3: "pendingTrials (snd (the (addTrialData (Suc 0) vanishing_row_remote trial_t1 fixed_manager)))
       = pendingTrials fixed_manager @ [trial_t1]"
    by (cases "addTrialData (Suc 0) vanishing_row_remote trial_t1 fixed_manager") (auto simp: ev)
  from T1[THEN conjunct1] a b1' fin h1 q1 b2' h2 q2 run3(1) h3 q3 show ?thesis
    by (intro conjI) (simp_all only: simp_thms)
qed

text \<open>
  C9. The claim as stated fails for \<^verbatim>\<open>addTrialData\<close>: when the read answers with the
  row-not-found code, the call re-queues the trial, re-initializes, and returns normally
  once that succeeds; the caller sees no failure although a remote call errored.
\<close>

theorem row_not_found_is_absorbed_by_recovery:
  "sel_error (on_select row_lost_once_remote (calls fixed_manager)) = Some row_missing
   \<and> map_option fst (addTrialData (Suc 0) row_lost_once_remote trial_t1 fixed_manager)
       = Some Returned"
  by (simp add: addTrialData.simps initializeExperiment.simps after_insert.simps
        processPending.simps fixture_defs Let_def fetch_trials_def write_trials_def
        forget_row_def handleRlsError_def insert_payload_def returned_id_def adopt_row_def
        take_pending_def initialized_ok_def say_def)

text \<open>
  C9, amended. An awaited \<^verbatim>\<open>initializeExperiment\<close> throws whenever the update or insert
  it issues answers with an error, and an awaited \<^verbatim>\<open>addTrialData\<close> on a ready manager
  throws whenever its read fails with a code other than \<^verbatim>\<open>PGRST116\<close>, or its write fails,
  with an error that is not an \<^verbatim>\<open>Error\<close> whose message contains \<^verbatim>\<open>not found\<close>. The row-store
  manager throws a new \<^verbatim>\<open>Error\<close> whose message is the context prefix followed by the
  underlying message (or by \<^verbatim>\<open>String(error)\<close> when the error is not an \<^verbatim>\<open>Error\<close>); the
  document-store manager throws a new \<^verbatim>\<open>Error\<close> with a fixed contextual message.
\<close>

theorem remote_errors_are_rethrown_outside_row_recovery:
  "(initialized s1 \<and> truthy_opt (rowId s1) \<and> on_update env1 (calls s1) = Some e1 \<longrightarrow>
      (\<exists>s'. initializeExperiment n env1 a1 s1
               = Some (Threw (new_Error (''Failed to initialize experiment data: '' @ describe_error e1)), s')))
   \<and> (\<not> (initialized s2 \<and> truthy_opt (rowId s2)) \<and> ins_error (on_insert env2 (calls s2)) = Some e2 \<longrightarrow>
      (\<exists>s'. initializeExperiment n env2 a2 s2
               = Some (Threw (new_Error (''Failed to initialize experiment data: '' @ describe_error e2)), s')))
   \<and> (initialized s3 \<and> truthy_opt (rowId s3) \<and> sel_error (on_select env3 (calls s3)) = Some e3
        \<and> error_code e3 \<noteq> ''PGRST116''
        \<and> \<not> (instance_of_Error e3 \<and> str_includes (error_message e3) ''not found'') \<longrightarrow>
      (\<exists>s'. addTrialData n env3 t3 s3
               = Some (Threw (new_Error (''Failed to store trial data: '' @ describe_error e3)), s')))
   \<and> (initialized s4 \<and> truthy_opt (rowId s4) \<and> sel_error (on_select env4 (calls s4)) = None
        \<and> on_update env4 (calls s4 @ [SelectTrials (tableName s4) (rowId s4) (on_select env4 (calls s4))])
            = Some e4
        \<and> \<not> (instance_of_Error e4 \<and> str_includes (error_message e4) ''not found'') \<longrightarrow>
      (\<exists>s'. addTrialData n env4 t4 s4
               = Some (Threw (new_Error (''Failed to store trial data: '' @ describe_error e4)), s')))
   \<and> (on_setDoc fenv (fb_calls fs) = Some e5 \<longrightarrow>
        fst (FirebaseManager_initializeExperiment fenv a5 fs)
          = Threw (new_Error ''Failed to initialize experiment document''))
   \<and> (on_updateDoc fenv (fb_calls fs) = Some e6 \<longrightarrow>
        fst (FirebaseManager_addTrialData fenv t6 fs)
          = Threw (new_Error ''Failed to store trial data''))"
proof (intro conjI impI)
  assume "initialized s1 \<and> truthy_opt (rowId s1) \<and> on_update env1 (calls s1) = Some e1"
  then show "\<exists>s'. initializeExperiment n env1 a1 s1
               = Some (Threw (new_Error (''Failed to initialize experiment data: '' @ describe_error e1)), s')"
    using initializeExperiment_update_refused[of s1 env1 e1 n a1] by blast
next
  assume "\<not> (initialized s2 \<and> truthy_opt (rowId s2)) \<and> ins_error (on_insert env2 (calls s2)) = Some e2"
  then show "\<exists>s'. initializeExperiment n env2 a2 s2
               = Some (Threw (new_Error (''Failed to initialize experiment data: '' @ describe_error e2)), s')"
    using initializeExperiment_insert_refused[of s2 env2 e2 n a2] by blast
next
  assume "initialized s3 \<and> truthy_opt (rowId s3) \<and> sel_error (on_select env3 (calls s3)) = Some e3
        \<and> error_code e3 \<noteq> ''PGRST116''
        \<and> \<not> (instance_of_Error e3 \<and> str_includes (error_message e3) ''not found'')"
  then show "\<exists>s'. addTrialData n env3 t3 s3
               = Some (Threw (new_Error (''Failed to store trial data: '' @ describe_error e3)), s')"
    using addTrialData_fetch_refused[of s3 env3 e3 n t3] by blast
next
  assume "initialized s4 \<and> truthy_opt (rowId s4) \<and> sel_error (on_select env4 (calls s4)) = None
        \<and> on_update env4 (calls s4 @ [SelectTrials (tableName s4) (rowId s4) (on_select env4 (calls s4))])
            = Some e4
        \<and> \<not> (instance_of_Error e4 \<and> str_includes (error_message e4) ''not found'')"
  then show "\<exists>s'. addTrialData n env4 t4 s4
               = Some (Threw (new_Error (''Failed to store trial data: '' @ describe_error e4)), s')"
    using addTrialData_update_refused[of s4 env4 e4 n t4] by blast
next
  assume "on_setDoc fenv (fb_calls fs) = Some e5"
  then show "fst (FirebaseManager_initializeExperiment fenv a5 fs)
          = Threw (new_Error ''Failed to initialize experiment document'')"
    by (simp add: FirebaseManager_initializeExperiment_def Let_def)
next
  assume "on_updateDoc fenv (fb_calls fs) = Some e6"
  then show "fst (FirebaseManager_addTrialData fenv t6 fs)
          = Threw (new_Error ''Failed to store trial data'')"
    by (simp add: FirebaseManager_addTrialData_def Let_def)
qed

theorem remote_errors_are_rethrown_outside_row_recovery_witness:
  "initialized fixed_manager \<and> truthy_opt (rowId fixed_manager)
   \<and> on_update unwritable_remote (calls fixed_manager) = Some network_error
   \<and> (\<exists>s'. initializeExperiment 0 unwritable_remote [] fixed_manager
               = Some (Threw (new_Error ''Failed to initialize experiment data: fetch failed''), s'))
   \<and> \<not> (initialized fresh_manager \<and> truthy_opt (rowId fresh_manager))
   \<and> ins_error (on_insert refusing_remote (calls fresh_manager)) = Some server_error
   \<and> (\<exists>s'. initializeExperiment 0 refusing_remote [] fresh_manager
               = Some (Threw (new_Error ''Failed to initialize experiment data: [object Object]''), s'))
   \<and> sel_error (on_select unreadable_remote (calls fixed_manager)) = Some server_error
   \<and> error_code server_error \<noteq> ''PGRST116''
   \<and> \<not> (instance_of_Error server_error \<and> str_includes (error_message server_error) ''not found'')
   \<and> (\<exists>s'. addTrialData 0 unreadable_remote trial_t1 fixed_manager
               = Some (Threw (new_Error ''Failed to store trial data: [object Object]''), s'))
   \<and> sel_error (on_select unwritable_remote (calls fixed_manager)) = None
   \<and> on_update unwritable_remote (calls fixed_manager @
         [SelectTrials (tableName fixed_manager) (rowId fixed_manager)
            (on_select unwritable_remote (calls fixed_manager))]) = Some network_error
   \<and> \<not> (instance_of_Error network_error \<and> str_includes (error_message network_error) ''not found'')
   \<and> (\<exists>s'. addTrialData 0 unwritable_remote trial_t1 fixed_manager
               = Some (Threw (new_Error ''Failed to store trial data: fetch failed''), s'))
   \<and> on_setDoc failing_firebase (fb_calls fresh_firebase_manager) = Some server_error
   \<and> fst (FirebaseManager_initializeExperiment failing_firebase [] fresh_firebase_manager)
          = Threw (new_Error ''Failed to initialize experiment document'')
   \<and> on_updateDoc failing_firebase (fb_calls fresh_firebase_manager) = Some server_error
   \<and> fst (FirebaseManager_addTrialData failing_firebase trial_t1 fresh_firebase_manager)
          = Threw (new_Error ''Failed to store trial data'')"
proof -
  have h1: "initialized fixed_manager \<and> truthy_opt (rowId fixed_manager)
            \<and> on_update unwritable_remote (calls fixed_manager) = Some network_error"
    by (simp add: fixed_manager_ready unwritable_remote_def truthy_opt_def)
  have h2: "\<not> (initialized fresh_manager \<and> truthy_opt (rowId fresh_manager))
            \<and> ins_error (on_insert refusing_remote (calls fresh_manager)) = Some server_error"
    by (simp add: fresh_manager_blank refusing_remote_def)
  have h3: "initialized fixed_manager \<and> truthy_opt (rowId fixed_manager)
        \<and> sel_error (on_select unreadable_remote (calls fixed_manager)) = Some server_error
        \<and> error_code server_error \<noteq> ''PGRST116''
        \<and> \<not> (instance_of_Error server_error \<and> str_includes (error_message server_error) ''not found'')"
    by (simp add: fixed_manager_ready unreadable_remote_def server_error_def truthy_opt_def)
  have h4: "initialized fixed_manager \<and> truthy_opt (rowId fixed_manager)
        \<and> sel_error (on_select unwritable_remote (calls fixed_manager)) = None
        \<and> on_update unwritable_remote (calls fixed_manager @
             [SelectTrials (tableName fixed_manager) (rowId fixed_manager)
                (on_select unwritable_remote (calls fixed_manager))]) = Some network_error
        \<and> \<not> (instance_of_Error network_error \<and> str_includes (error_message network_error) ''not found'')"
    by (simp add: fixed_manager_ready unwritable_remote_def table_remote_def network_error_def truthy_opt_def)
  have h5: "on_setDoc failing_firebase (fb_calls fresh_firebase_manager) = Some server_error"
    and h6: "on_updateDoc failing_firebase (fb_calls fresh_firebase_manager) = Some server_error"
    by (simp_all add: failing_firebase_def)
  have d: "describe_error network_error = ''fetch failed''"
    "describe_error server_error = ''[object Object]''"
    by (simp_all add: describe_error_def network_error_def server_error_def)
  note t = remote_errors_are_rethrown_outside_row_recovery[of fixed_manager unwritable_remote network_error 0 "[]"
                fresh_manager refusing_remote server_error "[]"
                fixed_manager unreadable_remote server_error trial_t1
                fixed_manager unwritable_remote network_error trial_t1
                failing_firebase fresh_firebase_manager server_error "[]" server_error trial_t1]
  from t h1 h2 h3 h4 h5 h6 show ?thesis
    unfolding d[symmetric] by (simp only: simp_thms append.simps)
qed

text \<open>
  C10. When \<^verbatim>\<open>initializeExperiment\<close> takes the insert branch (the manager is not
  initialized with a row identifier) and the insert answers with an error, or answers
  without a usable identifier, the call throws and the pending queue, the stored
  identifier, the initialized flag and the operation counter are what they were.
\<close>

theorem failed_insert_leaves_manager_unchanged:
  assumes "\<not> (initialized s \<and> truthy_opt (rowId s))"
      and "ins_error (on_insert env (calls s)) \<noteq> None
           \<or> returned_id (on_insert env (calls s)) = None"
  shows "\<exists>e s'. initializeExperiment n env additionalData s = Some (Threw e, s')
           \<and> pendingTrials s' = pendingTrials s \<and> rowId s' = rowId s
           \<and> initialized s' = initialized s \<and> \<not> isInitialized s'
           \<and> getNumberOfOperations s' = getNumberOfOperations s"
  using assms(1) after_insert_failed[OF assms(2), of n env "insert_payload additionalData s" s]
  by (auto simp: initializeExperiment.simps getNumberOfOperations_def isInitialized_def)

theorem failed_insert_leaves_manager_unchanged_witness:
  "\<not> (initialized fresh_manager \<and> truthy_opt (rowId fresh_manager))
   \<and> ins_error (on_insert refusing_remote (calls fresh_manager)) = Some server_error
   \<and> (\<exists>e s'. initializeExperiment 0 refusing_remote [] fresh_manager = Some (Threw e, s')
           \<and> pendingTrials s' = [] \<and> rowId s' = None
           \<and> \<not> initialized s' \<and> \<not> isInitialized s'
           \<and> getNumberOfOperations s' = 0)"
  using failed_insert_leaves_manager_unchanged [of fresh_manager refusing_remote 0 "[]"]
  by (simp add: fixture_defs getNumberOfOperations_def)

end
